theory Spec2Isabelle
  imports Complex_Main "HOL-Library.Word"
begin

section \<open>JavaScript values used by the finishing pipeline\<close>

text \<open>
  A JavaScript string is a sequence of 16-bit code units. Literals of the source are
  written \<open>js ''...''\<close>.
\<close>

type_synonym code_unit = "16 word"
type_synonym jsstring = "code_unit list"

definition js :: "string \<Rightarrow> jsstring" where
  "js s = map (\<lambda>c. of_char c) s"

text \<open>
  \<open>String.prototype.trim\<close> removes the code units of the ECMAScript productions
  WhiteSpace and LineTerminator from both ends.
\<close>

definition isWhiteSpace :: "code_unit \<Rightarrow> bool" where
  "isWhiteSpace c \<longleftrightarrow>
     List.member
       [0x0009, 0x000A, 0x000B, 0x000C, 0x000D, 0x0020, 0x00A0, 0x1680,
        0x2000, 0x2001, 0x2002, 0x2003, 0x2004, 0x2005, 0x2006, 0x2007,
        0x2008, 0x2009, 0x200A, 0x2028, 0x2029, 0x202F, 0x205F, 0x3000, 0xFEFF] c"

definition trim :: "jsstring \<Rightarrow> jsstring" where
  "trim s = rev (dropWhile isWhiteSpace (rev (dropWhile isWhiteSpace s)))"

text \<open>A string is truthy exactly when it is not empty; \<open>a || b\<close> on strings.\<close>

definition truthy :: "jsstring \<Rightarrow> bool" where
  "truthy s \<longleftrightarrow> s \<noteq> []"

definition or_else :: "jsstring \<Rightarrow> jsstring \<Rightarrow> jsstring" where
  "or_else a b = (if truthy a then a else b)"

text \<open>\<open>Number.prototype.toString\<close> on a non-negative integer: its decimal digits.\<close>

fun toString :: "nat \<Rightarrow> jsstring" where
  "toString n =
     (if n < 10 then [of_nat (48 + n)]
      else toString (n div 10) @ [of_nat (48 + n mod 10)])"

declare toString.simps [simp del]

text \<open>
  A thrown value: an \<open>Error\<close> object with its message, or a \<open>DOMException\<close> with its
  name.
\<close>

datatype js_error = Error jsstring | DOMException jsstring

section \<open>Canvas and 2D context\<close>

datatype path_cmd = MoveTo rat rat | LineTo rat rat

text \<open>
  A canvas is its two dimensions and the drawing operations that produced its pixels,
  each with the context state it was issued under. The dimensions are natural numbers;
  the upper limit a browser puts on a canvas dimension is not part of the model.
\<close>

datatype canvas = Canvas (width: nat) (height: nat) (drawn: "draw_op list")
and draw_op =
    DrawImage canvas rat rat
  | FillRect (rect_fillStyle: jsstring) rat rat rat rat
  | Stroke (stroke_strokeStyle: jsstring) (stroke_lineWidth: rat) "path_cmd list"
  | FillText (text_string: jsstring) (text_x: rat) (text_y: rat)
      (text_fillStyle: jsstring) (text_textBaseline: jsstring) (text_font: jsstring)

record context2d =
  fillStyle :: jsstring
  strokeStyle :: jsstring
  lineWidth :: rat
  textBaseline :: jsstring
  font :: jsstring
  imageSmoothingEnabled :: bool
  imageSmoothingQuality :: jsstring
  path :: "path_cmd list"
  painted :: "draw_op list"

text \<open>The state of a context fresh from \<open>getContext("2d")\<close>.\<close>

definition new_context :: context2d where
  "new_context =
     \<lparr>fillStyle = js ''#000000'', strokeStyle = js ''#000000'', lineWidth = 1,
      textBaseline = js ''alphabetic'', font = js ''10px sans-serif'',
      imageSmoothingEnabled = True, imageSmoothingQuality = js ''low'',
      path = [], painted = []\<rparr>"

text \<open>
  \<open>drawImage\<close> with a canvas as its image throws an \<open>InvalidStateError\<close> when that
  canvas has width 0 or height 0.
\<close>

definition drawImage :: "canvas \<Rightarrow> rat \<Rightarrow> rat \<Rightarrow> context2d \<Rightarrow> js_error + context2d" where
  "drawImage c x y ctx =
     (if width c = 0 \<or> height c = 0 then Inl (DOMException (js ''InvalidStateError''))
      else Inr (ctx\<lparr>painted := painted ctx @ [DrawImage c x y]\<rparr>))"

definition fillRect :: "rat \<Rightarrow> rat \<Rightarrow> rat \<Rightarrow> rat \<Rightarrow> context2d \<Rightarrow> context2d" where
  "fillRect x y w h ctx = ctx\<lparr>painted := painted ctx @ [FillRect (fillStyle ctx) x y w h]\<rparr>"

definition beginPath :: "context2d \<Rightarrow> context2d" where
  "beginPath ctx = ctx\<lparr>path := []\<rparr>"

definition moveTo :: "rat \<Rightarrow> rat \<Rightarrow> context2d \<Rightarrow> context2d" where
  "moveTo x y ctx = ctx\<lparr>path := path ctx @ [MoveTo x y]\<rparr>"

definition lineTo :: "rat \<Rightarrow> rat \<Rightarrow> context2d \<Rightarrow> context2d" where
  "lineTo x y ctx = ctx\<lparr>path := path ctx @ [LineTo x y]\<rparr>"

definition stroke :: "context2d \<Rightarrow> context2d" where
  "stroke ctx =
     ctx\<lparr>painted := painted ctx @ [Stroke (strokeStyle ctx) (lineWidth ctx) (path ctx)]\<rparr>"

definition fillText :: "jsstring \<Rightarrow> rat \<Rightarrow> rat \<Rightarrow> context2d \<Rightarrow> context2d" where
  "fillText t x y ctx =
     ctx\<lparr>painted := painted ctx @
       [FillText t x y (fillStyle ctx) (textBaseline ctx) (font ctx)]\<rparr>"

section \<open>The forensic footer\<close>

record ForensicMetadataOptions =
  timestampUtc :: jsstring
  userLabel :: jsstring

definition FONT_FAMILY :: jsstring where
  "FONT_FAMILY =
     js ''ui-monospace, SFMono-Regular, Menlo, Monaco, Consolas, ''
     @ [0x22] @ js ''Liberation Mono'' @ [0x22] @ js '', ''
     @ [0x22] @ js ''Courier New'' @ [0x22] @ js '', monospace''"

text \<open>
  \<open>appendForensicMetadata\<close>. The first argument says whether
  \<open>getContext("2d")\<close> yields a context for a canvas of the given width and height;
  without one the function throws. It also throws what \<open>drawImage\<close> throws.
\<close>

definition appendForensicMetadata ::
  "(nat \<Rightarrow> nat \<Rightarrow> bool) \<Rightarrow> canvas \<Rightarrow> ForensicMetadataOptions \<Rightarrow> js_error + canvas" where
  "appendForensicMetadata getContext2d sourceCanvas opts =
     (let footerPaddingX = (24::nat);
          footerPaddingY = (12::nat);
          lineGap = (4::nat);
          fontSize = (14::nat);
          lineHeight = (18::nat);
          footerHeight = footerPaddingY * 2 + lineHeight * 2 + lineGap;
          outputWidth = width sourceCanvas;
          outputHeight = height sourceCanvas + footerHeight
      in if \<not> getContext2d outputWidth outputHeight
         then Inl (Error (js ''Failed to get canvas context for forensic metadata''))
         else
           let ctx = new_context;
               ctx = ctx\<lparr>imageSmoothingEnabled := True\<rparr>;
               ctx = ctx\<lparr>imageSmoothingQuality := js ''high''\<rparr>
           in case drawImage sourceCanvas 0 0 ctx of Inl err \<Rightarrow> Inl err | Inr ctx \<Rightarrow>
           let ctx = ctx\<lparr>fillStyle := js ''#f8fafc''\<rparr>;
               ctx = fillRect 0 (of_nat (height sourceCanvas)) (of_nat outputWidth)
                       (of_nat footerHeight) ctx;
               ctx = ctx\<lparr>strokeStyle := js ''#e2e8f0''\<rparr>;
               ctx = ctx\<lparr>lineWidth := 1\<rparr>;
               ctx = beginPath ctx;
               ctx = moveTo 0 (of_nat (height sourceCanvas) + 1 / 2) ctx;
               ctx = lineTo (of_nat outputWidth) (of_nat (height sourceCanvas) + 1 / 2) ctx;
               ctx = stroke ctx;
               ctx = ctx\<lparr>fillStyle := js ''#0f172a''\<rparr>;
               ctx = ctx\<lparr>textBaseline := js ''top''\<rparr>;
               ctx = ctx\<lparr>font := toString fontSize @ js ''px '' @ FONT_FAMILY\<rparr>;
               startX = footerPaddingX;
               startY = height sourceCanvas + footerPaddingY;
               ctx = fillText (js ''UTC: '' @ timestampUtc opts)
                       (of_nat startX) (of_nat startY) ctx;
               ctx = fillText (js ''User: '' @ userLabel opts)
                       (of_nat startX) (of_nat (startY + lineHeight + lineGap)) ctx
           in Inr (Canvas outputWidth outputHeight (painted ctx)))"

section \<open>The environment of one invocation\<close>

datatype BackgroundType = Transparent | White | Black | Gray | Custom | Image | Gradient

text \<open>
  The settings store: each \<open>store.get(key)\<close> either throws or returns the stored
  value, \<open>None\<close> standing for \<open>undefined\<close> and \<open>null\<close>.
\<close>

record store =
  get_defaultBackgroundType :: "js_error + BackgroundType option"
  get_defaultCustomColor :: "js_error + jsstring option"
  get_defaultBackgroundImage :: "js_error + jsstring option"
  get_forensicMetadataEnabled :: "js_error + bool option"
  get_forensicTeam :: "js_error + jsstring option"
  get_forensicUser :: "js_error + jsstring option"

text \<open>An \<open>HTMLImageElement\<close>, as far as the pipeline sets it up.\<close>

record image_el =
  src :: jsstring
  crossOrigin :: jsstring

record shadow_options =
  blur :: int
  offsetX :: int
  offsetY :: int
  opacity :: int

text \<open>The argument object of \<open>createHighQualityCanvas\<close>.\<close>

record canvas_options =
  image_arg :: image_el
  backgroundType_arg :: BackgroundType
  customColor_arg :: jsstring
  selectedImage :: "jsstring option"
  bgImage :: "image_el option"
  blurAmount :: int
  noiseAmount :: int
  borderRadius :: int
  padding :: int
  gradientImage :: "image_el option"
  shadow :: shadow_options

datatype blob = Blob (blob_type: jsstring) (blob_bytes: "8 word list")

text \<open>\<open>FileReader.result\<close>: \<open>null\<close>, or the data URL read.\<close>

datatype reader_result = Null | DataURL jsstring

text \<open>
  Everything outside the two modules that an invocation depends on: the settings store,
  the asset registry (\<open>getDefaultBackgroundPath\<close>, \<open>resolveBackgroundPath\<close>), Tauri's
  \<open>convertFileSrc\<close>, whether an image element decodes (\<open>onload\<close>) or not
  (\<open>onerror\<close>), the compositor \<open>createHighQualityCanvas\<close> of \<open>canvas-utils\<close>
  (which may throw), whether a canvas of a given size yields a 2D context, the clock,
  \<open>canvas.toBlob\<close> (throws, or calls back with a blob or \<open>null\<close>) and
  \<open>FileReader.readAsDataURL\<close> (\<open>None\<close>: the read fails).
\<close>

record world =
  Store_load :: "jsstring \<Rightarrow> js_error + store"
  getDefaultBackgroundPath :: jsstring
  resolveBackgroundPath :: "jsstring \<Rightarrow> jsstring"
  convertFileSrc :: "jsstring \<Rightarrow> jsstring"
  decodes :: "image_el \<Rightarrow> bool"
  createHighQualityCanvas :: "canvas_options \<Rightarrow> js_error + canvas"
  getContext2d :: "nat \<Rightarrow> nat \<Rightarrow> bool"
  now_toISOString :: jsstring
  toBlob :: "canvas \<Rightarrow> jsstring \<Rightarrow> rat \<Rightarrow> js_error + blob option"
  readAsDataURL :: "blob \<Rightarrow> jsstring option"

section \<open>Promise, event handlers and the trace of an invocation\<close>

datatype image_role = SourceImage | BackgroundImage

text \<open>
  What an invocation does, in the order it does it: \<open>SetSrc\<close> is the assignment to
  \<open>img.src\<close> or \<open>bgImage.src\<close> that starts a decode, \<open>Onload\<close> and \<open>Onerror\<close> the
  event that ends it.
\<close>

datatype event =
    ConsoleError jsstring js_error
  | SetSrc image_role jsstring
  | Onload image_role
  | Onerror image_role
  | CallCreateHighQualityCanvas canvas_options
  | CallToBlob canvas jsstring rat
  | CallReadAsDataURL blob
  | CallResolve reader_result
  | CallReject js_error

datatype promise_state = Pending | Resolved reader_result | Rejected js_error

record run_state =
  promise :: promise_state
  trace :: "event list"

definition log :: "event \<Rightarrow> run_state \<Rightarrow> run_state" where
  "log e st = st\<lparr>trace := trace st @ [e]\<rparr>"

text \<open>A promise settles once: later calls of \<open>resolve\<close> and \<open>reject\<close> change nothing.\<close>

definition settle :: "promise_state \<Rightarrow> run_state \<Rightarrow> run_state" where
  "settle p st = (if promise st = Pending then st\<lparr>promise := p\<rparr> else st)"

definition resolve :: "reader_result \<Rightarrow> run_state \<Rightarrow> run_state" where
  "resolve v st = settle (Resolved v) (log (CallResolve v) st)"

definition reject :: "js_error \<Rightarrow> run_state \<Rightarrow> run_state" where
  "reject err st = settle (Rejected err) (log (CallReject err) st)"

text \<open>
  Assigning \<open>src\<close> starts the decode; the browser then calls exactly one of the two
  handlers.
\<close>

definition Image_set_src ::
  "world \<Rightarrow> image_role \<Rightarrow> image_el \<Rightarrow> (run_state \<Rightarrow> run_state) \<Rightarrow> (run_state \<Rightarrow> run_state)
     \<Rightarrow> run_state \<Rightarrow> run_state" where
  "Image_set_src w role el onload onerror st =
     (let st = log (SetSrc role (src el)) st
      in if decodes w el then onload (log (Onload role) st)
         else onerror (log (Onerror role) st))"

text \<open>
  \<open>reader.readAsDataURL(blob)\<close>: a successful read fires \<open>loadend\<close> with the result
  set; a failed read fires \<open>error\<close> and then \<open>loadend\<close>, the result being \<open>null\<close>.
\<close>

definition FileReader_readAsDataURL ::
  "world \<Rightarrow> blob \<Rightarrow> (reader_result \<Rightarrow> run_state \<Rightarrow> run_state) \<Rightarrow> (run_state \<Rightarrow> run_state)
     \<Rightarrow> run_state \<Rightarrow> run_state" where
  "FileReader_readAsDataURL w b onloadend onerror st =
     (let st = log (CallReadAsDataURL b) st
      in case readAsDataURL w b of
           Some url \<Rightarrow> onloadend (DataURL url) st
         | None \<Rightarrow> onloadend Null (onerror st))"

text \<open>The callback given to \<open>toBlob\<close>, the same text at its four places in the source.\<close>

definition toBlob_callback :: "world \<Rightarrow> blob option \<Rightarrow> run_state \<Rightarrow> run_state" where
  "toBlob_callback w blob_opt st =
     (case blob_opt of
        Some b \<Rightarrow>
          FileReader_readAsDataURL w b
            (\<lambda>result. resolve result)
            (reject (Error (js ''Failed to read processed image'')))
            st
      | None \<Rightarrow> reject (Error (js ''Failed to create blob from canvas'')) st)"

section \<open>The orchestrator with the forensic step\<close>

text \<open>
  The variables of \<open>processScreenshotWithDefaultBackground\<close> that its handlers close
  over. The first three are those of the older orchestrator as well.
\<close>

record base_settings =
  backgroundType :: BackgroundType
  customColor :: jsstring
  defaultBgImage :: jsstring

record settings = base_settings +
  forensicEnabled :: bool
  forensicTeam :: jsstring
  forensicUser :: jsstring

record AutoProcessOptions =
  options_timestampUtc :: "jsstring option"

definition initial_settings :: "world \<Rightarrow> settings" where
  "initial_settings w =
     \<lparr>backgroundType = Image, customColor = js ''#667eea'',
      defaultBgImage = getDefaultBackgroundPath w,
      forensicEnabled = False, forensicTeam = [], forensicUser = []\<rparr>"

text \<open>
  The values the \<open>try\<close> block reads from the store, under the names of its constants.
\<close>

record base_stored =
  storedBgType :: "BackgroundType option"
  storedCustomColor :: "jsstring option"
  storedDefaultBg :: "jsstring option"

record stored = base_stored +
  storedForensicEnabled :: "bool option"
  storedForensicTeam :: "jsstring option"
  storedForensicUser :: "jsstring option"

text \<open>
  The first half of the \<open>try\<close> block: \<open>Store.load\<close> and the six \<open>store.get\<close>, each of
  which may throw. All of them come before the first assignment, so a throw leaves the
  variables at their initial values.
\<close>

definition read_settings :: "world \<Rightarrow> js_error + stored" where
  "read_settings w =
     (case Store_load w (js ''settings.json'') of Inl err \<Rightarrow> Inl err | Inr store \<Rightarrow>
      case get_defaultBackgroundType store of Inl err \<Rightarrow> Inl err | Inr bgType \<Rightarrow>
      case get_defaultCustomColor store of Inl err \<Rightarrow> Inl err | Inr color \<Rightarrow>
      case get_defaultBackgroundImage store of Inl err \<Rightarrow> Inl err | Inr defaultBg \<Rightarrow>
      case get_forensicMetadataEnabled store of Inl err \<Rightarrow> Inl err | Inr enabled \<Rightarrow>
      case get_forensicTeam store of Inl err \<Rightarrow> Inl err | Inr team \<Rightarrow>
      case get_forensicUser store of Inl err \<Rightarrow> Inl err | Inr user \<Rightarrow>
        Inr \<lparr>storedBgType = bgType, storedCustomColor = color, storedDefaultBg = defaultBg,
             storedForensicEnabled = enabled, storedForensicTeam = team,
             storedForensicUser = user\<rparr>)"

text \<open>The second half: the six conditional assignments, in the order of the source.\<close>

definition assign_settings :: "world \<Rightarrow> stored \<Rightarrow> settings \<Rightarrow> settings" where
  "assign_settings w s v =
     (let v = (case storedBgType s of Some t \<Rightarrow> v\<lparr>backgroundType := t\<rparr> | None \<Rightarrow> v);
          v = (case storedCustomColor s of
                 Some c \<Rightarrow> if truthy c then v\<lparr>customColor := c\<rparr> else v
               | None \<Rightarrow> v);
          v = (case storedDefaultBg s of
                 Some r \<Rightarrow>
                   if truthy r \<and> (backgroundType v = Image \<or> backgroundType v = Gradient)
                   then v\<lparr>defaultBgImage := resolveBackgroundPath w r\<rparr> else v
               | None \<Rightarrow> v);
          v = (case storedForensicEnabled s of
                 Some b \<Rightarrow> v\<lparr>forensicEnabled := b\<rparr>
               | None \<Rightarrow> v);
          v = (case storedForensicTeam s of
                 Some t \<Rightarrow> if truthy t then v\<lparr>forensicTeam := t\<rparr> else v
               | None \<Rightarrow> v);
          v = (case storedForensicUser s of
                 Some u \<Rightarrow> if truthy u then v\<lparr>forensicUser := u\<rparr> else v
               | None \<Rightarrow> v)
      in v)"

definition try_load_settings :: "world \<Rightarrow> settings \<Rightarrow> js_error + settings" where
  "try_load_settings w v =
     (case read_settings w of Inl err \<Rightarrow> Inl err | Inr s \<Rightarrow> Inr (assign_settings w s v))"

text \<open>The \<open>try\<close>/\<open>catch\<close>: the resolved variables and what was written to the console.\<close>

definition loadSettings :: "world \<Rightarrow> settings \<times> event list" where
  "loadSettings w =
     (case try_load_settings w (initial_settings w) of
        Inl err \<Rightarrow>
          (initial_settings w,
           [ConsoleError (js ''Failed to load default background from settings:'') err])
      | Inr v \<Rightarrow> (v, []))"

definition buildUserLabel :: "jsstring \<Rightarrow> jsstring \<Rightarrow> jsstring" where
  "buildUserLabel team user =
     (let safeTeam = or_else (trim team) (js ''unknown'');
          safeUser = or_else (trim user) (js ''unknown'')
      in safeTeam @ js ''/'' @ safeUser)"

definition applyForensicMetadata ::
  "world \<Rightarrow> AutoProcessOptions \<Rightarrow> settings \<Rightarrow> canvas \<Rightarrow> js_error + canvas" where
  "applyForensicMetadata w options v canvas =
     (if \<not> forensicEnabled v then Inr canvas
      else
        let timestampUtc =
              (case options_timestampUtc options of Some t \<Rightarrow> t | None \<Rightarrow> now_toISOString w)
        in appendForensicMetadata (getContext2d w) canvas
             \<lparr>timestampUtc = timestampUtc,
              userLabel = buildUserLabel (forensicTeam v) (forensicUser v)\<rparr>)"

definition bgImage_onload ::
  "world \<Rightarrow> AutoProcessOptions \<Rightarrow> settings \<Rightarrow> image_el \<Rightarrow> image_el \<Rightarrow> run_state \<Rightarrow> run_state" where
  "bgImage_onload w options v img bgImg st =
     (let isGradient = (backgroundType v = Gradient);
          args =
            \<lparr>image_arg = img,
             backgroundType_arg = backgroundType v,
             customColor_arg = customColor v,
             selectedImage = (if isGradient then None else Some (defaultBgImage v)),
             bgImage = (if isGradient then None else Some bgImg),
             blurAmount = 0,
             noiseAmount = 20,
             borderRadius = 18,
             padding = 100,
             gradientImage = (if isGradient then Some bgImg else None),
             shadow = \<lparr>blur = 33, offsetX = 18, offsetY = 23, opacity = 39\<rparr>\<rparr>;
          st = log (CallCreateHighQualityCanvas args) st
      in case createHighQualityCanvas w args of
           Inl err \<Rightarrow> reject err st
         | Inr canvas \<Rightarrow>
             (case applyForensicMetadata w options v canvas of
                Inl err \<Rightarrow> reject err st
              | Inr outputCanvas \<Rightarrow>
                  (let st = log (CallToBlob outputCanvas (js ''image/png'') 1) st
                   in case toBlob w outputCanvas (js ''image/png'') 1 of
                        Inl err \<Rightarrow> reject err st
                      | Inr blob_opt \<Rightarrow> toBlob_callback w blob_opt st)))"

definition bgImage_onerror :: "run_state \<Rightarrow> run_state" where
  "bgImage_onerror st = reject (Error (js ''Failed to load background image'')) st"

definition img_onload ::
  "world \<Rightarrow> AutoProcessOptions \<Rightarrow> settings \<Rightarrow> image_el \<Rightarrow> run_state \<Rightarrow> run_state" where
  "img_onload w options v img st =
     (if backgroundType v = Image \<or> backgroundType v = Gradient then
        let bgImg = \<lparr>src = defaultBgImage v, crossOrigin = js ''anonymous''\<rparr>
        in Image_set_src w BackgroundImage bgImg
             (bgImage_onload w options v img bgImg) bgImage_onerror st
      else
        let isTransparent = (backgroundType v = Transparent);
            args =
              \<lparr>image_arg = img,
               backgroundType_arg = backgroundType v,
               customColor_arg = customColor v,
               selectedImage = None,
               bgImage = None,
               blurAmount = 0,
               noiseAmount = 20,
               borderRadius = 18,
               padding = (if isTransparent then 0 else 100),
               gradientImage = None,
               shadow =
                 (if isTransparent
                  then \<lparr>blur = 0, offsetX = 0, offsetY = 0, opacity = 0\<rparr>
                  else \<lparr>blur = 33, offsetX = 18, offsetY = 23, opacity = 39\<rparr>)\<rparr>;
            st = log (CallCreateHighQualityCanvas args) st
        in case createHighQualityCanvas w args of
             Inl err \<Rightarrow> reject err st
           | Inr canvas \<Rightarrow>
               (case applyForensicMetadata w options v canvas of
                  Inl err \<Rightarrow> reject err st
                | Inr outputCanvas \<Rightarrow>
                    (let st = log (CallToBlob outputCanvas (js ''image/png'') 1) st
                     in case toBlob w outputCanvas (js ''image/png'') 1 of
                          Inl err \<Rightarrow> reject err st
                        | Inr blob_opt \<Rightarrow> toBlob_callback w blob_opt st)))"

definition img_onerror :: "jsstring \<Rightarrow> run_state \<Rightarrow> run_state" where
  "img_onerror imagePath st = reject (Error (js ''Failed to load image from: '' @ imagePath)) st"

text \<open>
  The part of the executor after the settings are resolved: it builds \<open>img\<close>, installs
  the two handlers and assigns \<open>img.src\<close>.
\<close>

definition run_pipeline ::
  "world \<Rightarrow> jsstring \<Rightarrow> AutoProcessOptions \<Rightarrow> settings \<Rightarrow> run_state \<Rightarrow> run_state" where
  "run_pipeline w imagePath options v st =
     (let assetUrl = convertFileSrc w imagePath;
          img = \<lparr>src = assetUrl, crossOrigin = js ''anonymous''\<rparr>
      in Image_set_src w SourceImage img (img_onload w options v img) (img_onerror imagePath) st)"

definition processScreenshotWithDefaultBackground ::
  "world \<Rightarrow> jsstring \<Rightarrow> AutoProcessOptions \<Rightarrow> run_state" where
  "processScreenshotWithDefaultBackground w imagePath options =
     (case loadSettings w of
        (v, logged) \<Rightarrow> run_pipeline w imagePath options v \<lparr>promise = Pending, trace = logged\<rparr>)"

section \<open>The older orchestrator, without the forensic step\<close>

definition initial_settings_legacy :: "world \<Rightarrow> base_settings" where
  "initial_settings_legacy w =
     \<lparr>backgroundType = Image, customColor = js ''#667eea'',
      defaultBgImage = getDefaultBackgroundPath w\<rparr>"

definition read_settings_legacy :: "world \<Rightarrow> js_error + base_stored" where
  "read_settings_legacy w =
     (case Store_load w (js ''settings.json'') of Inl err \<Rightarrow> Inl err | Inr store \<Rightarrow>
      case get_defaultBackgroundType store of Inl err \<Rightarrow> Inl err | Inr bgType \<Rightarrow>
      case get_defaultCustomColor store of Inl err \<Rightarrow> Inl err | Inr color \<Rightarrow>
      case get_defaultBackgroundImage store of Inl err \<Rightarrow> Inl err | Inr defaultBg \<Rightarrow>
        Inr \<lparr>storedBgType = bgType, storedCustomColor = color, storedDefaultBg = defaultBg\<rparr>)"

definition assign_settings_legacy :: "world \<Rightarrow> base_stored \<Rightarrow> base_settings \<Rightarrow> base_settings" where
  "assign_settings_legacy w s v =
     (let v = (case storedBgType s of Some t \<Rightarrow> v\<lparr>backgroundType := t\<rparr> | None \<Rightarrow> v);
          v = (case storedCustomColor s of
                 Some c \<Rightarrow> if truthy c then v\<lparr>customColor := c\<rparr> else v
               | None \<Rightarrow> v);
          v = (case storedDefaultBg s of
                 Some r \<Rightarrow>
                   if truthy r \<and> (backgroundType v = Image \<or> backgroundType v = Gradient)
                   then v\<lparr>defaultBgImage := resolveBackgroundPath w r\<rparr> else v
               | None \<Rightarrow> v)
      in v)"

definition try_load_settings_legacy :: "world \<Rightarrow> base_settings \<Rightarrow> js_error + base_settings" where
  "try_load_settings_legacy w v =
     (case read_settings_legacy w of
        Inl err \<Rightarrow> Inl err
      | Inr s \<Rightarrow> Inr (assign_settings_legacy w s v))"

definition loadSettings_legacy :: "world \<Rightarrow> base_settings \<times> event list" where
  "loadSettings_legacy w =
     (case try_load_settings_legacy w (initial_settings_legacy w) of
        Inl err \<Rightarrow>
          (initial_settings_legacy w,
           [ConsoleError (js ''Failed to load default background from settings:'') err])
      | Inr v \<Rightarrow> (v, []))"

definition bgImage_onload_legacy ::
  "world \<Rightarrow> base_settings \<Rightarrow> image_el \<Rightarrow> image_el \<Rightarrow> run_state \<Rightarrow> run_state" where
  "bgImage_onload_legacy w v img bgImg st =
     (let isGradient = (backgroundType v = Gradient);
          args =
            \<lparr>image_arg = img,
             backgroundType_arg = backgroundType v,
             customColor_arg = customColor v,
             selectedImage = (if isGradient then None else Some (defaultBgImage v)),
             bgImage = (if isGradient then None else Some bgImg),
             blurAmount = 0,
             noiseAmount = 20,
             borderRadius = 18,
             padding = 100,
             gradientImage = (if isGradient then Some bgImg else None),
             shadow = \<lparr>blur = 33, offsetX = 18, offsetY = 23, opacity = 39\<rparr>\<rparr>;
          st = log (CallCreateHighQualityCanvas args) st
      in case createHighQualityCanvas w args of
           Inl err \<Rightarrow> reject err st
         | Inr canvas \<Rightarrow>
             (let st = log (CallToBlob canvas (js ''image/png'') 1) st
              in case toBlob w canvas (js ''image/png'') 1 of
                   Inl err \<Rightarrow> reject err st
                 | Inr blob_opt \<Rightarrow> toBlob_callback w blob_opt st))"

definition img_onload_legacy ::
  "world \<Rightarrow> base_settings \<Rightarrow> image_el \<Rightarrow> run_state \<Rightarrow> run_state" where
  "img_onload_legacy w v img st =
     (if backgroundType v = Image \<or> backgroundType v = Gradient then
        let bgImg = \<lparr>src = defaultBgImage v, crossOrigin = js ''anonymous''\<rparr>
        in Image_set_src w BackgroundImage bgImg
             (bgImage_onload_legacy w v img bgImg) bgImage_onerror st
      else
        let isTransparent = (backgroundType v = Transparent);
            args =
              \<lparr>image_arg = img,
               backgroundType_arg = backgroundType v,
               customColor_arg = customColor v,
               selectedImage = None,
               bgImage = None,
               blurAmount = 0,
               noiseAmount = 20,
               borderRadius = 18,
               padding = (if isTransparent then 0 else 100),
               gradientImage = None,
               shadow =
                 (if isTransparent
                  then \<lparr>blur = 0, offsetX = 0, offsetY = 0, opacity = 0\<rparr>
                  else \<lparr>blur = 33, offsetX = 18, offsetY = 23, opacity = 39\<rparr>)\<rparr>;
            st = log (CallCreateHighQualityCanvas args) st
        in case createHighQualityCanvas w args of
             Inl err \<Rightarrow> reject err st
           | Inr canvas \<Rightarrow>
               (let st = log (CallToBlob canvas (js ''image/png'') 1) st
                in case toBlob w canvas (js ''image/png'') 1 of
                     Inl err \<Rightarrow> reject err st
                   | Inr blob_opt \<Rightarrow> toBlob_callback w blob_opt st))"

definition run_pipeline_legacy ::
  "world \<Rightarrow> jsstring \<Rightarrow> base_settings \<Rightarrow> run_state \<Rightarrow> run_state" where
  "run_pipeline_legacy w imagePath v st =
     (let assetUrl = convertFileSrc w imagePath;
          img = \<lparr>src = assetUrl, crossOrigin = js ''anonymous''\<rparr>
      in Image_set_src w SourceImage img (img_onload_legacy w v img) (img_onerror imagePath) st)"

definition processScreenshotWithDefaultBackground_legacy :: "world \<Rightarrow> jsstring \<Rightarrow> run_state" where
  "processScreenshotWithDefaultBackground_legacy w imagePath =
     (case loadSettings_legacy w of
        (v, logged) \<Rightarrow> run_pipeline_legacy w imagePath v \<lparr>promise = Pending, trace = logged\<rparr>)"

section \<open>The asset registry\<close>

text \<open>
  Modelled from the spec: \<open>resolveBackgroundPath\<close> of the asset registry, whose module is
  not among the sources. The spec has it resolve a stored reference "to a loadable resource
  path or inline byte blob", and "if \<open>Image\<close>/\<open>Gradient\<close> is selected but the stored
  reference is stale/unresolvable, fall back to a built-in default background image reference
  rather than failing outright". The registry is a partial map from references to locations;
  a reference outside its domain is stale or unresolvable.
\<close>

definition resolveBackgroundPath_spec ::
  "(jsstring \<Rightarrow> jsstring option) \<Rightarrow> jsstring \<Rightarrow> jsstring \<Rightarrow> jsstring" where
  "resolveBackgroundPath_spec registry fallback r =
     (case registry r of Some location \<Rightarrow> location | None \<Rightarrow> fallback)"

section \<open>The trace and the outcome of an invocation, stage by stage\<close>

text \<open>
  Every handler appends events to the trace and settles the promise at most once, so a
  handler is described by the events it appends and the state it would settle a pending
  promise to (\<open>Pending\<close>: it does not settle). The following functions give both for the
  encoding block, the composition block and the whole pipeline; the lemmas below prove that
  the handlers compute exactly these. \<open>footer\<close> is the forensic step: \<open>applyForensicMetadata\<close>
  in the newer orchestrator, \<open>Inr\<close> (no step) in the older one.
\<close>

definition effect :: "event list \<Rightarrow> promise_state \<Rightarrow> run_state \<Rightarrow> run_state" where
  "effect evs p st =
     \<lparr>promise = (if promise st = Pending then p else promise st), trace = trace st @ evs\<rparr>"

definition callback_events :: "world \<Rightarrow> blob option \<Rightarrow> event list" where
  "callback_events w blob_opt =
     (case blob_opt of
        None \<Rightarrow> [CallReject (Error (js ''Failed to create blob from canvas''))]
      | Some b \<Rightarrow>
          CallReadAsDataURL b #
          (case readAsDataURL w b of
             Some url \<Rightarrow> [CallResolve (DataURL url)]
           | None \<Rightarrow> [CallReject (Error (js ''Failed to read processed image'')), CallResolve Null]))"

definition callback_outcome :: "world \<Rightarrow> blob option \<Rightarrow> promise_state" where
  "callback_outcome w blob_opt =
     (case blob_opt of
        None \<Rightarrow> Rejected (Error (js ''Failed to create blob from canvas''))
      | Some b \<Rightarrow>
          (case readAsDataURL w b of
             Some url \<Rightarrow> Resolved (DataURL url)
           | None \<Rightarrow> Rejected (Error (js ''Failed to read processed image''))))"

definition encode_events :: "world \<Rightarrow> canvas \<Rightarrow> event list" where
  "encode_events w out =
     CallToBlob out (js ''image/png'') 1 #
     (case toBlob w out (js ''image/png'') 1 of
        Inl err \<Rightarrow> [CallReject err]
      | Inr blob_opt \<Rightarrow> callback_events w blob_opt)"

definition encode_outcome :: "world \<Rightarrow> canvas \<Rightarrow> promise_state" where
  "encode_outcome w out =
     (case toBlob w out (js ''image/png'') 1 of
        Inl err \<Rightarrow> Rejected err
      | Inr blob_opt \<Rightarrow> callback_outcome w blob_opt)"

definition compose_events ::
  "world \<Rightarrow> (canvas \<Rightarrow> js_error + canvas) \<Rightarrow> canvas_options \<Rightarrow> event list" where
  "compose_events w footer args =
     CallCreateHighQualityCanvas args #
     (case createHighQualityCanvas w args of
        Inl err \<Rightarrow> [CallReject err]
      | Inr canvas \<Rightarrow>
          (case footer canvas of
             Inl err \<Rightarrow> [CallReject err]
           | Inr out \<Rightarrow> encode_events w out))"

definition compose_outcome ::
  "world \<Rightarrow> (canvas \<Rightarrow> js_error + canvas) \<Rightarrow> canvas_options \<Rightarrow> promise_state" where
  "compose_outcome w footer args =
     (case createHighQualityCanvas w args of
        Inl err \<Rightarrow> Rejected err
      | Inr canvas \<Rightarrow>
          (case footer canvas of
             Inl err \<Rightarrow> Rejected err
           | Inr out \<Rightarrow> encode_outcome w out))"

text \<open>
  The argument objects built in \<open>bgImage.onload\<close> and in the \<open>else\<close> branch of
  \<open>img.onload\<close>, and the two image elements.
\<close>

definition background_args :: "'a base_settings_scheme \<Rightarrow> image_el \<Rightarrow> image_el \<Rightarrow> canvas_options" where
  "background_args v img bgImg =
     \<lparr>image_arg = img,
      backgroundType_arg = backgroundType v,
      customColor_arg = customColor v,
      selectedImage = (if backgroundType v = Gradient then None else Some (defaultBgImage v)),
      bgImage = (if backgroundType v = Gradient then None else Some bgImg),
      blurAmount = 0,
      noiseAmount = 20,
      borderRadius = 18,
      padding = 100,
      gradientImage = (if backgroundType v = Gradient then Some bgImg else None),
      shadow = \<lparr>blur = 33, offsetX = 18, offsetY = 23, opacity = 39\<rparr>\<rparr>"

definition plain_args :: "'a base_settings_scheme \<Rightarrow> image_el \<Rightarrow> canvas_options" where
  "plain_args v img =
     \<lparr>image_arg = img,
      backgroundType_arg = backgroundType v,
      customColor_arg = customColor v,
      selectedImage = None,
      bgImage = None,
      blurAmount = 0,
      noiseAmount = 20,
      borderRadius = 18,
      padding = (if backgroundType v = Transparent then 0 else 100),
      gradientImage = None,
      shadow =
        (if backgroundType v = Transparent
         then \<lparr>blur = 0, offsetX = 0, offsetY = 0, opacity = 0\<rparr>
         else \<lparr>blur = 33, offsetX = 18, offsetY = 23, opacity = 39\<rparr>)\<rparr>"

definition source_el :: "world \<Rightarrow> jsstring \<Rightarrow> image_el" where
  "source_el w imagePath = \<lparr>src = convertFileSrc w imagePath, crossOrigin = js ''anonymous''\<rparr>"

definition background_el :: "'a base_settings_scheme \<Rightarrow> image_el" where
  "background_el v = \<lparr>src = defaultBgImage v, crossOrigin = js ''anonymous''\<rparr>"

text \<open>
  The arguments of the one compositor call an invocation can make.
\<close>

definition the_args :: "world \<Rightarrow> jsstring \<Rightarrow> 'a base_settings_scheme \<Rightarrow> canvas_options" where
  "the_args w imagePath v =
     (if backgroundType v = Image \<or> backgroundType v = Gradient
      then background_args v (source_el w imagePath) (background_el v)
      else plain_args v (source_el w imagePath))"

definition pipeline_events ::
  "world \<Rightarrow> jsstring \<Rightarrow> (canvas \<Rightarrow> js_error + canvas) \<Rightarrow> 'a base_settings_scheme \<Rightarrow> event list" where
  "pipeline_events w imagePath footer v =
     SetSrc SourceImage (convertFileSrc w imagePath) #
     (if \<not> decodes w (source_el w imagePath)
      then [Onerror SourceImage,
            CallReject (Error (js ''Failed to load image from: '' @ imagePath))]
      else
        Onload SourceImage #
        (if backgroundType v = Image \<or> backgroundType v = Gradient
         then
           SetSrc BackgroundImage (defaultBgImage v) #
           (if \<not> decodes w (background_el v)
            then [Onerror BackgroundImage,
                  CallReject (Error (js ''Failed to load background image''))]
            else
              Onload BackgroundImage #
              compose_events w footer
                (background_args v (source_el w imagePath) (background_el v)))
         else compose_events w footer (plain_args v (source_el w imagePath))))"

definition pipeline_outcome ::
  "world \<Rightarrow> jsstring \<Rightarrow> (canvas \<Rightarrow> js_error + canvas) \<Rightarrow> 'a base_settings_scheme \<Rightarrow> promise_state" where
  "pipeline_outcome w imagePath footer v =
     (if \<not> decodes w (source_el w imagePath)
      then Rejected (Error (js ''Failed to load image from: '' @ imagePath))
      else if backgroundType v = Image \<or> backgroundType v = Gradient
      then
        (if \<not> decodes w (background_el v)
         then Rejected (Error (js ''Failed to load background image''))
         else compose_outcome w footer
                (background_args v (source_el w imagePath) (background_el v)))
      else compose_outcome w footer (plain_args v (source_el w imagePath)))"

text \<open>
  The stages of the pipeline and the event that starts each of them; \<open>stages_started\<close>
  lists the stages a trace starts, in order and with repetitions.
\<close>

datatype stage = DecodeSource | DecodeBackground | Compose | Encode | ReadBlob

fun stage_started :: "event \<Rightarrow> stage option" where
  "stage_started (SetSrc SourceImage _) = Some DecodeSource"
| "stage_started (SetSrc BackgroundImage _) = Some DecodeBackground"
| "stage_started (CallCreateHighQualityCanvas _) = Some Compose"
| "stage_started (CallToBlob _ _ _) = Some Encode"
| "stage_started (CallReadAsDataURL _) = Some ReadBlob"
| "stage_started _ = None"

fun stages_started :: "event list \<Rightarrow> stage list" where
  "stages_started [] = []"
| "stages_started (e # es) =
     (case stage_started e of None \<Rightarrow> stages_started es | Some s \<Rightarrow> s # stages_started es)"

text \<open>
  The text operations among the drawing operations of a canvas.
\<close>

fun is_text :: "draw_op \<Rightarrow> bool" where
  "is_text (FillText _ _ _ _ _ _) = True"
| "is_text _ = False"

section \<open>Concrete environments\<close>

text \<open>
  A settings store holding a background type, a colour, a background reference, the
  forensic switch and a team but no user; an environment in which every stage succeeds, the
  compositor returning an 800 by 600 source padded on all sides; a registry that knows one
  asset; an environment whose stored reference the registry does not know; environments
  in which one stage fails; and an environment whose store holds the type \<open>transparent\<close>
  with forensic metadata off and throws on reading the forensic team, the encoded bytes
  depending on the width of the canvas.
\<close>

definition example_store :: "BackgroundType \<Rightarrow> bool \<Rightarrow> store" where
  "example_store t enabled =
     \<lparr>get_defaultBackgroundType = Inr (Some t),
      get_defaultCustomColor = Inr (Some (js ''#112233'')),
      get_defaultBackgroundImage = Inr (Some (js ''asset-7'')),
      get_forensicMetadataEnabled = Inr (Some enabled),
      get_forensicTeam = Inr (Some (js ''security'')),
      get_forensicUser = Inr None\<rparr>"

definition example_world :: "(js_error + store) \<Rightarrow> world" where
  "example_world s =
     \<lparr>Store_load = (\<lambda>_. s),
      getDefaultBackgroundPath = js ''/default.jpg'',
      resolveBackgroundPath = (\<lambda>r. js ''/assets/'' @ r),
      convertFileSrc = (\<lambda>p. js ''asset://'' @ p),
      decodes = (\<lambda>_. True),
      createHighQualityCanvas =
        (\<lambda>a. Inr (Canvas (800 + 2 * nat (padding a)) (600 + 2 * nat (padding a)) [])),
      getContext2d = (\<lambda>_ _. True),
      now_toISOString = js ''2024-01-01T00:00:00.000Z'',
      toBlob = (\<lambda>c m q. Inr (Some (Blob m []))),
      readAsDataURL = (\<lambda>b. Some (js ''data:'' @ blob_type b @ js '';base64,''))\<rparr>"

definition example_path :: jsstring where
  "example_path = js ''/tmp/shot.png''"

definition example_options :: AutoProcessOptions where
  "example_options = \<lparr>options_timestampUtc = Some (js ''2024-01-01T00:00:00Z'')\<rparr>"

definition example_registry :: "jsstring \<Rightarrow> jsstring option" where
  "example_registry r = (if r = js ''asset-7'' then Some (js ''/assets/asset-7.jpg'') else None)"

definition stale_world :: world where
  "stale_world =
     (example_world
        (Inr ((example_store Gradient False)
                \<lparr>get_defaultBackgroundImage := Inr (Some (js ''asset-old''))\<rparr>)))
     \<lparr>resolveBackgroundPath := resolveBackgroundPath_spec example_registry (js ''/default.jpg'')\<rparr>"

definition failing_world :: "(world \<Rightarrow> world) \<Rightarrow> world" where
  "failing_world break = break (example_world (Inr (example_store Image False)))"

definition diverging_world :: world where
  "diverging_world =
     (example_world
        (Inr ((example_store Transparent False)
                \<lparr>get_forensicTeam := Inl (Error (js ''store closed''))\<rparr>)))
     \<lparr>toBlob := (\<lambda>c m q. Inr (Some (Blob m (if width c = 800 then [0] else [1])))),
      readAsDataURL :=
        (\<lambda>b. Some (js ''data:'' @ blob_type b @ js '';base64,'' @
                     (if blob_bytes b = [0] then js ''AA=='' else js ''AQ=='')))\<rparr>"

section \<open>Handlers compute the stage functions\<close>

subsection \<open>Handlers as effects on the run state\<close>

lemma log_effect: "log e st = effect [e] Pending st"
  by (simp add: log_def effect_def)

lemma reject_effect: "reject err st = effect [CallReject err] (Rejected err) st"
  by (simp add: reject_def settle_def log_def effect_def)

lemma resolve_effect: "resolve v st = effect [CallResolve v] (Resolved v) st"
  by (simp add: resolve_def settle_def log_def effect_def)

lemma effect_effect:
  "effect evs2 p2 (effect evs1 p1 st) = effect (evs1 @ evs2) (if p1 = Pending then p2 else p1) st"
  by (simp add: effect_def)

lemma toBlob_callback_effect:
  "toBlob_callback w blob_opt st =
     effect (callback_events w blob_opt) (callback_outcome w blob_opt) st"
  by (simp add: toBlob_callback_def FileReader_readAsDataURL_def callback_events_def
      callback_outcome_def log_effect reject_effect resolve_effect effect_effect
      split: option.splits)

lemma compose_effect:
  "(case createHighQualityCanvas w args of
      Inl err \<Rightarrow> reject err (log (CallCreateHighQualityCanvas args) st)
    | Inr canvas \<Rightarrow>
        (case footer canvas of
           Inl err \<Rightarrow> reject err (log (CallCreateHighQualityCanvas args) st)
         | Inr outputCanvas \<Rightarrow>
             (case toBlob w outputCanvas (js ''image/png'') 1 of
                Inl err \<Rightarrow>
                  reject err
                    (log (CallToBlob outputCanvas (js ''image/png'') 1)
                       (log (CallCreateHighQualityCanvas args) st))
              | Inr blob_opt \<Rightarrow>
                  toBlob_callback w blob_opt
                    (log (CallToBlob outputCanvas (js ''image/png'') 1)
                       (log (CallCreateHighQualityCanvas args) st)))))
   = effect (compose_events w footer args) (compose_outcome w footer args) st"
  by (simp add: compose_events_def compose_outcome_def encode_events_def encode_outcome_def
      toBlob_callback_effect log_effect reject_effect effect_effect
      split: sum.splits)

lemma compose_legacy_effect:
  "(case createHighQualityCanvas w args of
      Inl err \<Rightarrow> reject err (log (CallCreateHighQualityCanvas args) st)
    | Inr canvas \<Rightarrow>
        (case toBlob w canvas (js ''image/png'') 1 of
           Inl err \<Rightarrow>
             reject err
               (log (CallToBlob canvas (js ''image/png'') 1)
                  (log (CallCreateHighQualityCanvas args) st))
         | Inr blob_opt \<Rightarrow>
             toBlob_callback w blob_opt
               (log (CallToBlob canvas (js ''image/png'') 1)
                  (log (CallCreateHighQualityCanvas args) st))))
   = effect (compose_events w Inr args) (compose_outcome w Inr args) st"
  by (simp add: compose_events_def compose_outcome_def encode_events_def encode_outcome_def
      toBlob_callback_effect log_effect reject_effect effect_effect
      split: sum.splits)

lemma bgImage_onload_effect:
  "bgImage_onload w options v img bgImg st =
     effect (compose_events w (applyForensicMetadata w options v) (background_args v img bgImg))
       (compose_outcome w (applyForensicMetadata w options v) (background_args v img bgImg)) st"
  unfolding bgImage_onload_def background_args_def Let_def by (rule compose_effect)

lemma bgImage_onload_legacy_effect:
  "bgImage_onload_legacy w v img bgImg st =
     effect (compose_events w Inr (background_args v img bgImg))
       (compose_outcome w Inr (background_args v img bgImg)) st"
  unfolding bgImage_onload_legacy_def background_args_def Let_def by (rule compose_legacy_effect)

lemma img_onload_plain_effect:
  "\<not> (backgroundType v = Image \<or> backgroundType v = Gradient) \<Longrightarrow>
   img_onload w options v img st =
     effect (compose_events w (applyForensicMetadata w options v) (plain_args v img))
       (compose_outcome w (applyForensicMetadata w options v) (plain_args v img)) st"
  unfolding img_onload_def plain_args_def Let_def
  by (simp only: if_False) (rule compose_effect)

lemma img_onload_legacy_plain_effect:
  "\<not> (backgroundType v = Image \<or> backgroundType v = Gradient) \<Longrightarrow>
   img_onload_legacy w v img st =
     effect (compose_events w Inr (plain_args v img))
       (compose_outcome w Inr (plain_args v img)) st"
  unfolding img_onload_legacy_def plain_args_def Let_def
  by (simp only: if_False) (rule compose_legacy_effect)

lemma bgImage_onerror_effect:
  "bgImage_onerror st =
     effect [CallReject (Error (js ''Failed to load background image''))]
       (Rejected (Error (js ''Failed to load background image''))) st"
  by (simp add: bgImage_onerror_def reject_effect)

lemma img_onerror_effect:
  "img_onerror imagePath st =
     effect [CallReject (Error (js ''Failed to load image from: '' @ imagePath))]
       (Rejected (Error (js ''Failed to load image from: '' @ imagePath))) st"
  by (simp add: img_onerror_def reject_effect)

lemma src_background_el: "src (background_el v) = defaultBgImage v"
  by (simp add: background_el_def)

lemma src_source_el: "src (source_el w imagePath) = convertFileSrc w imagePath"
  by (simp add: source_el_def)

lemma img_onload_background_effect:
  "backgroundType v = Image \<or> backgroundType v = Gradient \<Longrightarrow>
   img_onload w options v img st =
     (if decodes w (background_el v)
      then effect
             (SetSrc BackgroundImage (defaultBgImage v) # Onload BackgroundImage #
              compose_events w (applyForensicMetadata w options v)
                (background_args v img (background_el v)))
             (compose_outcome w (applyForensicMetadata w options v)
                (background_args v img (background_el v))) st
      else effect
             [SetSrc BackgroundImage (defaultBgImage v), Onerror BackgroundImage,
              CallReject (Error (js ''Failed to load background image''))]
             (Rejected (Error (js ''Failed to load background image''))) st)"
  by (simp add: img_onload_def Let_def Image_set_src_def background_el_def [symmetric] src_background_el
      bgImage_onload_effect bgImage_onerror_effect log_effect effect_effect)

lemma img_onload_legacy_background_effect:
  "backgroundType v = Image \<or> backgroundType v = Gradient \<Longrightarrow>
   img_onload_legacy w v img st =
     (if decodes w (background_el v)
      then effect
             (SetSrc BackgroundImage (defaultBgImage v) # Onload BackgroundImage #
              compose_events w Inr (background_args v img (background_el v)))
             (compose_outcome w Inr (background_args v img (background_el v))) st
      else effect
             [SetSrc BackgroundImage (defaultBgImage v), Onerror BackgroundImage,
              CallReject (Error (js ''Failed to load background image''))]
             (Rejected (Error (js ''Failed to load background image''))) st)"
  by (simp add: img_onload_legacy_def Let_def Image_set_src_def background_el_def [symmetric] src_background_el
      bgImage_onload_legacy_effect bgImage_onerror_effect log_effect effect_effect)

lemma run_pipeline_effect:
  "run_pipeline w imagePath options v st =
     effect (pipeline_events w imagePath (applyForensicMetadata w options v) v)
       (pipeline_outcome w imagePath (applyForensicMetadata w options v) v) st"
proof (cases "backgroundType v = Image \<or> backgroundType v = Gradient")
  case True
  then show ?thesis
    by (simp add: run_pipeline_def Let_def Image_set_src_def source_el_def [symmetric] src_source_el
        img_onload_background_effect img_onerror_effect log_effect effect_effect
        pipeline_events_def pipeline_outcome_def)
next
  case False
  then show ?thesis
    by (simp add: run_pipeline_def Let_def Image_set_src_def source_el_def [symmetric] src_source_el
        img_onload_plain_effect img_onerror_effect log_effect effect_effect
        pipeline_events_def pipeline_outcome_def)
qed

lemma run_pipeline_legacy_effect:
  "run_pipeline_legacy w imagePath v st =
     effect (pipeline_events w imagePath Inr v) (pipeline_outcome w imagePath Inr v) st"
proof (cases "backgroundType v = Image \<or> backgroundType v = Gradient")
  case True
  then show ?thesis
    by (simp add: run_pipeline_legacy_def Let_def Image_set_src_def source_el_def [symmetric] src_source_el
        img_onload_legacy_background_effect img_onerror_effect log_effect effect_effect
        pipeline_events_def pipeline_outcome_def)
next
  case False
  then show ?thesis
    by (simp add: run_pipeline_legacy_def Let_def Image_set_src_def source_el_def [symmetric] src_source_el
        img_onload_legacy_plain_effect img_onerror_effect log_effect effect_effect
        pipeline_events_def pipeline_outcome_def)
qed

subsection \<open>The orchestrators in terms of the stage functions\<close>

lemma stages_started_append:
  "stages_started (xs @ ys) = stages_started xs @ stages_started ys"
  by (induction xs) (simp_all split: option.splits)

lemma process_unfold:
  "processScreenshotWithDefaultBackground w imagePath options =
     run_pipeline w imagePath options (fst (loadSettings w))
       \<lparr>promise = Pending, trace = snd (loadSettings w)\<rparr>"
  by (simp add: processScreenshotWithDefaultBackground_def split: prod.splits)

lemma process_legacy_unfold:
  "processScreenshotWithDefaultBackground_legacy w imagePath =
     run_pipeline_legacy w imagePath (fst (loadSettings_legacy w))
       \<lparr>promise = Pending, trace = snd (loadSettings_legacy w)\<rparr>"
  by (simp add: processScreenshotWithDefaultBackground_legacy_def split: prod.splits)

lemma process_trace:
  "trace (processScreenshotWithDefaultBackground w imagePath options) =
     snd (loadSettings w) @
     pipeline_events w imagePath (applyForensicMetadata w options (fst (loadSettings w)))
       (fst (loadSettings w))"
  by (simp add: process_unfold run_pipeline_effect effect_def)

lemma process_promise:
  "promise (processScreenshotWithDefaultBackground w imagePath options) =
     pipeline_outcome w imagePath (applyForensicMetadata w options (fst (loadSettings w)))
       (fst (loadSettings w))"
  by (simp add: process_unfold run_pipeline_effect effect_def)

lemma process_legacy_trace:
  "trace (processScreenshotWithDefaultBackground_legacy w imagePath) =
     snd (loadSettings_legacy w) @ pipeline_events w imagePath Inr (fst (loadSettings_legacy w))"
  by (simp add: process_legacy_unfold run_pipeline_legacy_effect effect_def)

lemma process_legacy_promise:
  "promise (processScreenshotWithDefaultBackground_legacy w imagePath) =
     pipeline_outcome w imagePath Inr (fst (loadSettings_legacy w))"
  by (simp add: process_legacy_unfold run_pipeline_legacy_effect effect_def)

subsection \<open>Stages started\<close>

lemma callback_events_stages:
  "stages_started (callback_events w blob_opt) =
     (case blob_opt of None \<Rightarrow> [] | Some b \<Rightarrow> [ReadBlob])"
  by (simp add: callback_events_def
      split: option.splits)

lemma encode_events_stages:
  "stages_started (encode_events w out) =
     Encode # (case toBlob w out (js ''image/png'') 1 of
                 Inr (Some b) \<Rightarrow> [ReadBlob] | _ \<Rightarrow> [])"
  by (simp add: encode_events_def callback_events_stages
      split: sum.splits option.splits)

lemma compose_events_stages:
  "set (stages_started (compose_events w footer args)) \<subseteq> {Compose, Encode, ReadBlob} \<and>
   distinct (stages_started (compose_events w footer args))"
  by (simp add: compose_events_def encode_events_stages
      split: sum.splits option.splits)

lemma pipeline_events_stages:
  "distinct (stages_started (pipeline_events w imagePath footer v))"
  using compose_events_stages [of w footer "background_args v (source_el w imagePath) (background_el v)"]
    compose_events_stages [of w footer "plain_args v (source_el w imagePath)"]
  by (auto simp: pipeline_events_def)

lemma logged_stages: "stages_started (snd (loadSettings w)) = []"
  by (simp add: loadSettings_def split: sum.splits)

lemma logged_legacy_stages: "stages_started (snd (loadSettings_legacy w)) = []"
  by (simp add: loadSettings_legacy_def split: sum.splits)

subsection \<open>Compositor calls and decode events in a trace\<close>

lemma callback_events_no_compose:
  "CallCreateHighQualityCanvas a \<notin> set (callback_events w blob_opt)"
  by (simp add: callback_events_def split: option.splits)

lemma encode_events_no_compose:
  "CallCreateHighQualityCanvas a \<notin> set (encode_events w out)"
  by (simp add: encode_events_def callback_events_no_compose split: sum.splits)

lemma compose_events_compose:
  "CallCreateHighQualityCanvas a \<in> set (compose_events w footer args) \<longleftrightarrow> a = args"
  by (auto simp: compose_events_def encode_events_no_compose split: sum.splits)

lemma pipeline_events_compose:
  "CallCreateHighQualityCanvas a \<in> set (pipeline_events w imagePath footer v) \<longleftrightarrow>
     decodes w (source_el w imagePath) \<and>
     (if backgroundType v = Image \<or> backgroundType v = Gradient
      then decodes w (background_el v) \<and>
           a = background_args v (source_el w imagePath) (background_el v)
      else a = plain_args v (source_el w imagePath))"
  by (auto simp: pipeline_events_def compose_events_compose)

lemma callback_events_no_decode:
  "SetSrc r u \<notin> set (callback_events w blob_opt) \<and>
   Onload r \<notin> set (callback_events w blob_opt) \<and>
   Onerror r \<notin> set (callback_events w blob_opt)"
  by (simp add: callback_events_def split: option.splits)

lemma encode_events_no_decode:
  "SetSrc r u \<notin> set (encode_events w out) \<and>
   Onload r \<notin> set (encode_events w out) \<and>
   Onerror r \<notin> set (encode_events w out)"
  by (simp add: encode_events_def callback_events_no_decode split: sum.splits)

lemma compose_events_no_decode:
  "SetSrc r u \<notin> set (compose_events w footer args) \<and>
   Onload r \<notin> set (compose_events w footer args) \<and>
   Onerror r \<notin> set (compose_events w footer args)"
  by (simp add: compose_events_def encode_events_no_decode split: sum.splits)

lemma pipeline_events_background_src:
  "SetSrc BackgroundImage u \<in> set (pipeline_events w imagePath footer v) \<longleftrightarrow>
     decodes w (source_el w imagePath) \<and>
     (backgroundType v = Image \<or> backgroundType v = Gradient) \<and> u = defaultBgImage v"
  by (auto simp: pipeline_events_def compose_events_no_decode)

lemma pipeline_events_background_error:
  "Onerror BackgroundImage \<in> set (pipeline_events w imagePath footer v) \<longleftrightarrow>
     decodes w (source_el w imagePath) \<and>
     (backgroundType v = Image \<or> backgroundType v = Gradient) \<and> \<not> decodes w (background_el v)"
  by (auto simp: pipeline_events_def compose_events_no_decode)

lemma logged_no_compose: "CallCreateHighQualityCanvas a \<notin> set (snd (loadSettings w))"
  by (auto simp: loadSettings_def split: sum.splits)

lemma logged_legacy_no_compose: "CallCreateHighQualityCanvas a \<notin> set (snd (loadSettings_legacy w))"
  by (auto simp: loadSettings_legacy_def split: sum.splits)

lemma logged_no_decode:
  "SetSrc r u \<notin> set (snd (loadSettings w)) \<and> Onload r \<notin> set (snd (loadSettings w)) \<and>
   Onerror r \<notin> set (snd (loadSettings w))"
  by (auto simp: loadSettings_def split: sum.splits)

lemma logged_legacy_no_decode:
  "SetSrc r u \<notin> set (snd (loadSettings_legacy w)) \<and>
   Onload r \<notin> set (snd (loadSettings_legacy w)) \<and>
   Onerror r \<notin> set (snd (loadSettings_legacy w))"
  by (auto simp: loadSettings_legacy_def split: sum.splits)

lemma plain_args_transparent:
  "backgroundType v = Transparent \<Longrightarrow>
   padding (plain_args v img) = 0 \<and>
   shadow (plain_args v img) = \<lparr>blur = 0, offsetX = 0, offsetY = 0, opacity = 0\<rparr>"
  by (simp add: plain_args_def)

lemma compositor_constants:
  "backgroundType v \<noteq> Transparent \<Longrightarrow>
   a = plain_args v img \<or> a = background_args v img bgImg \<Longrightarrow>
   padding a = 100 \<and> borderRadius a = 18 \<and> noiseAmount a = 20 \<and> blurAmount a = 0 \<and>
   shadow a = \<lparr>blur = 33, offsetX = 18, offsetY = 23, opacity = 39\<rparr>"
  by (auto simp: plain_args_def background_args_def)

subsection \<open>Definitions unfolded to evaluate a concrete run\<close>

lemmas example_defs = example_world_def example_store_def example_path_def example_options_def

lemmas settings_defs = loadSettings_def try_load_settings_def read_settings_def
  assign_settings_def initial_settings_def loadSettings_legacy_def try_load_settings_legacy_def
  read_settings_legacy_def assign_settings_legacy_def initial_settings_legacy_def truthy_def
  Let_def

lemmas events_defs = pipeline_events_def pipeline_outcome_def compose_events_def
  compose_outcome_def encode_events_def encode_outcome_def callback_events_def
  callback_outcome_def source_el_def background_el_def plain_args_def background_args_def

subsection \<open>Order of events\<close>

lemma split_after_prefix:
  "xs @ ys = pre @ x # post \<Longrightarrow> x \<notin> set xs \<Longrightarrow> \<exists>zs. pre = xs @ zs \<and> ys = zs @ x # post"
  by (auto simp: append_eq_append_conv2 append_eq_Cons_conv)

lemma second_precedes:
  "e1 # e2 # rest = pre @ x # post \<Longrightarrow> x \<noteq> e1 \<Longrightarrow> x \<noteq> e2 \<Longrightarrow> e2 \<in> set pre"
  by (auto simp: Cons_eq_append_conv)

lemma pipeline_events_order:
  assumes "pipeline_events w imagePath footer v = pre @ SetSrc BackgroundImage u # post"
  shows "Onload SourceImage \<in> set pre"
proof (cases "decodes w (source_el w imagePath)")
  case True
  then obtain rest where "pipeline_events w imagePath footer v =
      SetSrc SourceImage (convertFileSrc w imagePath) # Onload SourceImage # rest"
    by (simp add: pipeline_events_def)
  with assms have "SetSrc SourceImage (convertFileSrc w imagePath) # Onload SourceImage # rest
      = pre @ SetSrc BackgroundImage u # post"
    by simp
  then show ?thesis by (rule second_precedes) simp_all
next
  case False
  have "SetSrc BackgroundImage u \<in> set (pipeline_events w imagePath footer v)"
    using assms by simp
  with False show ?thesis by (simp add: pipeline_events_background_src)
qed

lemma trace_order:
  assumes "logged @ pipeline_events w imagePath footer v = pre @ SetSrc BackgroundImage u # post"
    and "SetSrc BackgroundImage u \<notin> set logged"
  shows "Onload SourceImage \<in> set pre"
proof -
  from split_after_prefix [OF assms] obtain zs where
    pre: "pre = logged @ zs" and
    rest: "pipeline_events w imagePath footer v = zs @ SetSrc BackgroundImage u # post"
    by blast
  from rest have "Onload SourceImage \<in> set zs" by (rule pipeline_events_order)
  with pre show ?thesis by simp
qed

subsection \<open>Encoding and reading\<close>

lemma callback_events_read:
  "CallReadAsDataURL b \<in> set (callback_events w blob_opt) \<longleftrightarrow> blob_opt = Some b"
  by (auto simp: callback_events_def split: option.splits)

lemma callback_events_no_toBlob: "CallToBlob c m q \<notin> set (callback_events w blob_opt)"
  by (simp add: callback_events_def split: option.splits)

lemma callback_events_resolve:
  "CallResolve (DataURL url) \<in> set (callback_events w blob_opt) \<longleftrightarrow>
     callback_outcome w blob_opt = Resolved (DataURL url)"
  by (auto simp: callback_events_def callback_outcome_def split: option.splits)

lemma callback_outcome_Resolved:
  "callback_outcome w blob_opt = Resolved r \<longleftrightarrow>
     (\<exists>b url. blob_opt = Some b \<and> readAsDataURL w b = Some url \<and> r = DataURL url)"
  by (auto simp: callback_outcome_def split: option.splits)

lemma callback_outcome_settled: "callback_outcome w blob_opt \<noteq> Pending"
  by (simp add: callback_outcome_def split: option.splits)

lemma encode_events_toBlob:
  "CallToBlob c m q \<in> set (encode_events w out) \<longleftrightarrow> c = out \<and> m = js ''image/png'' \<and> q = 1"
  by (auto simp: encode_events_def callback_events_no_toBlob split: sum.splits)

lemma encode_events_read:
  "CallReadAsDataURL b \<in> set (encode_events w out) \<longleftrightarrow>
     toBlob w out (js ''image/png'') 1 = Inr (Some b)"
  by (auto simp: encode_events_def callback_events_read split: sum.splits)

lemma encode_events_resolve:
  "CallResolve (DataURL url) \<in> set (encode_events w out) \<longleftrightarrow>
     encode_outcome w out = Resolved (DataURL url)"
  by (auto simp: encode_events_def encode_outcome_def callback_events_resolve split: sum.splits)

lemma encode_outcome_Resolved:
  "encode_outcome w out = Resolved r \<longleftrightarrow>
     (\<exists>b url. toBlob w out (js ''image/png'') 1 = Inr (Some b) \<and>
        readAsDataURL w b = Some url \<and> r = DataURL url)"
  by (auto simp: encode_outcome_def callback_outcome_Resolved split: sum.splits)

lemma encode_outcome_settled: "encode_outcome w out \<noteq> Pending"
  by (simp add: encode_outcome_def callback_outcome_settled split: sum.splits)

lemma compose_events_toBlob:
  "CallToBlob c m q \<in> set (compose_events w footer args) \<longleftrightarrow>
     m = js ''image/png'' \<and> q = 1 \<and>
     (\<exists>canvas. createHighQualityCanvas w args = Inr canvas \<and> footer canvas = Inr c)"
  by (auto simp: compose_events_def encode_events_toBlob split: sum.splits)

lemma compose_outcome_encode:
  "createHighQualityCanvas w args = Inr canvas \<Longrightarrow> footer canvas = Inr out \<Longrightarrow>
   compose_outcome w footer args = encode_outcome w out"
  by (simp add: compose_outcome_def)

lemma compose_events_read:
  "CallReadAsDataURL b \<in> set (compose_events w footer args) \<longleftrightarrow>
     (\<exists>canvas out. createHighQualityCanvas w args = Inr canvas \<and> footer canvas = Inr out \<and>
        toBlob w out (js ''image/png'') 1 = Inr (Some b))"
  by (auto simp: compose_events_def encode_events_read split: sum.splits)

lemma compose_events_resolve:
  "CallResolve (DataURL url) \<in> set (compose_events w footer args) \<longleftrightarrow>
     compose_outcome w footer args = Resolved (DataURL url)"
  by (auto simp: compose_events_def compose_outcome_def encode_events_resolve split: sum.splits)

lemma compose_outcome_Resolved:
  "compose_outcome w footer args = Resolved r \<longleftrightarrow>
     (\<exists>canvas out b url. createHighQualityCanvas w args = Inr canvas \<and> footer canvas = Inr out \<and>
        toBlob w out (js ''image/png'') 1 = Inr (Some b) \<and>
        readAsDataURL w b = Some url \<and> r = DataURL url)"
  by (auto simp: compose_outcome_def encode_outcome_Resolved split: sum.splits)

lemma compose_outcome_settled: "compose_outcome w footer args \<noteq> Pending"
  by (simp add: compose_outcome_def encode_outcome_settled split: sum.splits)

lemma pipeline_outcome_settled: "pipeline_outcome w imagePath footer v \<noteq> Pending"
  by (simp add: pipeline_outcome_def compose_outcome_settled)

lemma pipeline_events_compose_the_args:
  "CallCreateHighQualityCanvas a \<in> set (pipeline_events w imagePath footer v) \<Longrightarrow>
   a = the_args w imagePath v \<and>
   pipeline_outcome w imagePath footer v = compose_outcome w footer a"
  by (auto simp: pipeline_events_compose pipeline_outcome_def the_args_def split: if_splits)

lemma pipeline_events_cases:
  "e \<in> set (pipeline_events w imagePath footer v) \<Longrightarrow>
   (\<exists>r u. e = SetSrc r u) \<or> (\<exists>r. e = Onload r) \<or> (\<exists>r. e = Onerror r) \<or>
   e = CallReject (Error (js ''Failed to load image from: '' @ imagePath)) \<or>
   e = CallReject (Error (js ''Failed to load background image'')) \<or>
   (e \<in> set (compose_events w footer (the_args w imagePath v)) \<and>
    pipeline_outcome w imagePath footer v = compose_outcome w footer (the_args w imagePath v))"
  by (auto simp: pipeline_events_def pipeline_outcome_def the_args_def split: if_splits)

lemma logged_only_console:
  "e \<in> set (snd (loadSettings w)) \<Longrightarrow> \<exists>m err. e = ConsoleError m err"
  by (auto simp: loadSettings_def split: sum.splits)

lemma pipeline_outcome_Resolved:
  "pipeline_outcome w imagePath footer v = Resolved r \<Longrightarrow>
   CallCreateHighQualityCanvas (the_args w imagePath v) \<in> set (pipeline_events w imagePath footer v) \<and>
   compose_outcome w footer (the_args w imagePath v) = Resolved r \<and>
   set (compose_events w footer (the_args w imagePath v)) \<subseteq> set (pipeline_events w imagePath footer v)"
  by (auto simp: pipeline_outcome_def pipeline_events_def the_args_def compose_events_compose
      split: if_splits)

lemma pipeline_events_toBlob:
  "CallToBlob c m q \<in> set (pipeline_events w imagePath footer v) \<Longrightarrow>
   m = js ''image/png'' \<and> q = 1 \<and> pipeline_outcome w imagePath footer v = encode_outcome w c"
  by (auto dest!: pipeline_events_cases simp: compose_events_toBlob compose_outcome_encode)

lemma pipeline_events_read:
  "CallReadAsDataURL b \<in> set (pipeline_events w imagePath footer v) \<Longrightarrow>
   pipeline_outcome w imagePath footer v = callback_outcome w (Some b)"
  by (auto dest!: pipeline_events_cases
      simp: compose_events_read compose_outcome_encode encode_outcome_def)

lemma pipeline_events_resolve:
  "CallResolve (DataURL url) \<in> set (pipeline_events w imagePath footer v) \<Longrightarrow>
   pipeline_outcome w imagePath footer v = Resolved (DataURL url)"
  by (auto dest!: pipeline_events_cases simp: compose_events_resolve)

lemma pipeline_events_compose_failed:
  "CallCreateHighQualityCanvas a \<in> set (pipeline_events w imagePath footer v) \<Longrightarrow>
   pipeline_outcome w imagePath footer v =
     (case createHighQualityCanvas w a of
        Inl err \<Rightarrow> Rejected err
      | Inr canvas \<Rightarrow> (case footer canvas of Inl err \<Rightarrow> Rejected err | Inr out \<Rightarrow> encode_outcome w out))"
  by (auto dest!: pipeline_events_compose_the_args simp: compose_outcome_def)

subsection \<open>The footer\<close>

lemma toString_14: "toString 14 = js ''14''"
  by (simp add: toString.simps js_def)

lemma dropWhile_all_Nil:
  assumes "\<forall>x\<in>set (dropWhile P s). P x"
  shows "dropWhile P s = []"
proof (rule ccontr)
  assume ne: "dropWhile P s \<noteq> []"
  then have "\<not> P (hd (dropWhile P s))" by (rule hd_dropWhile)
  moreover have "hd (dropWhile P s) \<in> set (dropWhile P s)" using ne by simp
  ultimately show False using assms by blast
qed

lemma trim_blank: "trim s = [] \<longleftrightarrow> (\<forall>c\<in>set s. isWhiteSpace c)"
proof
  assume "trim s = []"
  then have "\<forall>x\<in>set (dropWhile isWhiteSpace s). isWhiteSpace x"
    by (simp add: trim_def)
  then have "dropWhile isWhiteSpace s = []" by (rule dropWhile_all_Nil)
  then show "\<forall>c\<in>set s. isWhiteSpace c" by simp
next
  assume "\<forall>c\<in>set s. isWhiteSpace c"
  then show "trim s = []" by (auto simp: trim_def dest: set_dropWhileD)
qed

lemma appendForensicMetadata_result:
  "appendForensicMetadata gc c opts =
     (if \<not> gc (width c) (height c + 64)
      then Inl (Error (js ''Failed to get canvas context for forensic metadata''))
      else if width c = 0 \<or> height c = 0
      then Inl (DOMException (js ''InvalidStateError''))
      else Inr (Canvas (width c) (height c + 64)
             [DrawImage c 0 0,
              FillRect (js ''#f8fafc'') 0 (of_nat (height c)) (of_nat (width c)) 64,
              Stroke (js ''#e2e8f0'') 1
                [MoveTo 0 (of_nat (height c) + 1 / 2),
                 LineTo (of_nat (width c)) (of_nat (height c) + 1 / 2)],
              FillText (js ''UTC: '' @ timestampUtc opts) 24 (of_nat (height c) + 12)
                (js ''#0f172a'') (js ''top'') (js ''14px '' @ FONT_FAMILY),
              FillText (js ''User: '' @ userLabel opts) 24 (of_nat (height c) + 12 + 22)
                (js ''#0f172a'') (js ''top'') (js ''14px '' @ FONT_FAMILY)]))"
  by (simp add: appendForensicMetadata_def Let_def new_context_def drawImage_def fillRect_def
      beginPath_def moveTo_def lineTo_def stroke_def fillText_def toString_14 js_def)

subsection \<open>Settings\<close>

lemma assign_backgroundType:
  "backgroundType (assign_settings w s v) =
     (case storedBgType s of Some t \<Rightarrow> t | None \<Rightarrow> backgroundType v)"
  by (cases "storedBgType s"; cases "storedCustomColor s"; cases "storedDefaultBg s";
      cases "storedForensicEnabled s"; cases "storedForensicTeam s"; cases "storedForensicUser s";
      simp add: assign_settings_def Let_def)

lemma assign_customColor:
  "customColor (assign_settings w s v) =
     (case storedCustomColor s of
        Some c \<Rightarrow> if truthy c then c else customColor v
      | None \<Rightarrow> customColor v)"
  by (cases "storedBgType s"; cases "storedCustomColor s"; cases "storedDefaultBg s";
      cases "storedForensicEnabled s"; cases "storedForensicTeam s"; cases "storedForensicUser s";
      simp add: assign_settings_def Let_def)

lemma assign_defaultBgImage:
  "defaultBgImage (assign_settings w s v) =
     (case storedDefaultBg s of
        Some r \<Rightarrow>
          if truthy r \<and>
             ((case storedBgType s of Some t \<Rightarrow> t | None \<Rightarrow> backgroundType v) = Image \<or>
              (case storedBgType s of Some t \<Rightarrow> t | None \<Rightarrow> backgroundType v) = Gradient)
          then resolveBackgroundPath w r else defaultBgImage v
      | None \<Rightarrow> defaultBgImage v)"
  by (cases "storedBgType s"; cases "storedCustomColor s"; cases "storedDefaultBg s";
      cases "storedForensicEnabled s"; cases "storedForensicTeam s"; cases "storedForensicUser s";
      auto simp: assign_settings_def Let_def)

lemma assign_forensicEnabled:
  "forensicEnabled (assign_settings w s v) =
     (case storedForensicEnabled s of Some b \<Rightarrow> b | None \<Rightarrow> forensicEnabled v)"
  by (cases "storedBgType s"; cases "storedCustomColor s"; cases "storedDefaultBg s";
      cases "storedForensicEnabled s"; cases "storedForensicTeam s"; cases "storedForensicUser s";
      simp add: assign_settings_def Let_def)

lemma assign_forensicTeam:
  "forensicTeam (assign_settings w s v) =
     (case storedForensicTeam s of
        Some t \<Rightarrow> if truthy t then t else forensicTeam v
      | None \<Rightarrow> forensicTeam v)"
  by (cases "storedBgType s"; cases "storedCustomColor s"; cases "storedDefaultBg s";
      cases "storedForensicEnabled s"; cases "storedForensicTeam s"; cases "storedForensicUser s";
      simp add: assign_settings_def Let_def)

lemma assign_forensicUser:
  "forensicUser (assign_settings w s v) =
     (case storedForensicUser s of
        Some u \<Rightarrow> if truthy u then u else forensicUser v
      | None \<Rightarrow> forensicUser v)"
  by (cases "storedBgType s"; cases "storedCustomColor s"; cases "storedDefaultBg s";
      cases "storedForensicEnabled s"; cases "storedForensicTeam s"; cases "storedForensicUser s";
      simp add: assign_settings_def Let_def)

lemma assign_legacy_backgroundType:
  "backgroundType (assign_settings_legacy w s v) =
     (case storedBgType s of Some t \<Rightarrow> t | None \<Rightarrow> backgroundType v)"
  by (cases "storedBgType s"; cases "storedCustomColor s"; cases "storedDefaultBg s";
      simp add: assign_settings_legacy_def Let_def)

lemma assign_legacy_customColor:
  "customColor (assign_settings_legacy w s v) =
     (case storedCustomColor s of
        Some c \<Rightarrow> if truthy c then c else customColor v
      | None \<Rightarrow> customColor v)"
  by (cases "storedBgType s"; cases "storedCustomColor s"; cases "storedDefaultBg s";
      simp add: assign_settings_legacy_def Let_def)

lemma assign_legacy_defaultBgImage:
  "defaultBgImage (assign_settings_legacy w s v) =
     (case storedDefaultBg s of
        Some r \<Rightarrow>
          if truthy r \<and>
             ((case storedBgType s of Some t \<Rightarrow> t | None \<Rightarrow> backgroundType v) = Image \<or>
              (case storedBgType s of Some t \<Rightarrow> t | None \<Rightarrow> backgroundType v) = Gradient)
          then resolveBackgroundPath w r else defaultBgImage v
      | None \<Rightarrow> defaultBgImage v)"
  by (cases "storedBgType s"; cases "storedCustomColor s"; cases "storedDefaultBg s";
      auto simp: assign_settings_legacy_def Let_def)

lemma applyForensicMetadata_disabled:
  "\<not> forensicEnabled v \<Longrightarrow> applyForensicMetadata w options v = Inr"
  by (rule ext) (simp add: applyForensicMetadata_def)

lemma pipeline_outcome_cong:
  "backgroundType v = backgroundType v' \<Longrightarrow> customColor v = customColor v' \<Longrightarrow>
   defaultBgImage v = defaultBgImage v' \<Longrightarrow>
   pipeline_outcome w imagePath footer v = pipeline_outcome w imagePath footer v'"
  by (simp add: pipeline_outcome_def plain_args_def background_args_def background_el_def)

lemma load_failure_new:
  "Store_load w (js ''settings.json'') = Inl err \<Longrightarrow>
   loadSettings w =
     (initial_settings w,
      [ConsoleError (js ''Failed to load default background from settings:'') err])"
  by (simp add: loadSettings_def try_load_settings_def read_settings_def)

lemma load_failure_legacy:
  "Store_load w (js ''settings.json'') = Inl err \<Longrightarrow>
   loadSettings_legacy w =
     (initial_settings_legacy w,
      [ConsoleError (js ''Failed to load default background from settings:'') err])"
  by (simp add: loadSettings_legacy_def try_load_settings_legacy_def read_settings_legacy_def)

lemma read_settings_legacy_agrees:
  "read_settings w = Inr s \<Longrightarrow>
   \<exists>s'. read_settings_legacy w = Inr s' \<and> storedBgType s' = storedBgType s \<and>
        storedCustomColor s' = storedCustomColor s \<and> storedDefaultBg s' = storedDefaultBg s"
  by (auto simp: read_settings_def read_settings_legacy_def split: sum.splits)

lemma loaded_settings_agree:
  assumes "read_settings w = Inr s"
  shows "backgroundType (fst (loadSettings w)) = backgroundType (fst (loadSettings_legacy w)) \<and>
    customColor (fst (loadSettings w)) = customColor (fst (loadSettings_legacy w)) \<and>
    defaultBgImage (fst (loadSettings w)) = defaultBgImage (fst (loadSettings_legacy w))"
proof -
  from read_settings_legacy_agrees [OF assms] obtain s' where
    "read_settings_legacy w = Inr s'" "storedBgType s' = storedBgType s"
    "storedCustomColor s' = storedCustomColor s" "storedDefaultBg s' = storedDefaultBg s"
    by blast
  with assms show ?thesis
    by (simp add: loadSettings_def loadSettings_legacy_def try_load_settings_def
        try_load_settings_legacy_def assign_backgroundType assign_customColor
        assign_defaultBgImage assign_legacy_backgroundType assign_legacy_customColor
        assign_legacy_defaultBgImage initial_settings_def initial_settings_legacy_def
        cong: option.case_cong if_cong)
qed

lemma reads_without_forensic_throw:
  assumes "\<forall>store. Store_load w (js ''settings.json'') = Inr store \<longrightarrow>
      (\<forall>e. get_forensicMetadataEnabled store \<noteq> Inl e) \<and>
      (\<forall>e. get_forensicTeam store \<noteq> Inl e) \<and>
      (\<forall>e. get_forensicUser store \<noteq> Inl e)"
  shows "(\<exists>s. read_settings w = Inr s) \<or>
    (\<exists>err err'. read_settings w = Inl err \<and> read_settings_legacy w = Inl err')"
proof (cases "Store_load w (js ''settings.json'')")
  case (Inl err)
  then show ?thesis by (simp add: read_settings_def read_settings_legacy_def)
next
  case (Inr store)
  with assms obtain en tm us where f:
    "get_forensicMetadataEnabled store = Inr en" "get_forensicTeam store = Inr tm"
    "get_forensicUser store = Inr us"
    by (metis sum.exhaust)
  show ?thesis
    by (cases "get_defaultBackgroundType store"; cases "get_defaultCustomColor store";
        cases "get_defaultBackgroundImage store")
      (simp_all add: read_settings_def read_settings_legacy_def Inr f)
qed

lemma failed_settings_agree:
  assumes "read_settings w = Inl err" and "read_settings_legacy w = Inl err'"
  shows "backgroundType (fst (loadSettings w)) = backgroundType (fst (loadSettings_legacy w)) \<and>
    customColor (fst (loadSettings w)) = customColor (fst (loadSettings_legacy w)) \<and>
    defaultBgImage (fst (loadSettings w)) = defaultBgImage (fst (loadSettings_legacy w))"
  using assms
  by (simp add: loadSettings_def loadSettings_legacy_def try_load_settings_def
      try_load_settings_legacy_def initial_settings_def initial_settings_legacy_def)

lemma initial_settings_fields:
  "backgroundType (initial_settings w) = Image"
  "customColor (initial_settings w) = js ''#667eea''"
  "defaultBgImage (initial_settings w) = getDefaultBackgroundPath w"
  "forensicEnabled (initial_settings w) = False"
  by (simp_all add: initial_settings_def)

lemma read_settings_store:
  "read_settings w = Inr s \<Longrightarrow>
   \<exists>store. Store_load w (js ''settings.json'') = Inr store \<and>
     get_defaultBackgroundImage store = Inr (storedDefaultBg s)"
  by (auto simp: read_settings_def split: sum.splits)

lemma loadSettings_cases:
  "(\<exists>err. read_settings w = Inl err \<and>
      loadSettings w = (initial_settings w,
        [ConsoleError (js ''Failed to load default background from settings:'') err])) \<or>
   (\<exists>s. read_settings w = Inr s \<and>
      loadSettings w = (assign_settings w s (initial_settings w), []))"
  by (cases "read_settings w") (simp_all add: loadSettings_def try_load_settings_def)

subsection \<open>Background decodes and console output\<close>

lemma decode_background_event:
  "stage_started e = Some DecodeBackground \<longleftrightarrow> (\<exists>u. e = SetSrc BackgroundImage u)"
  by (cases e rule: stage_started.cases) simp_all

lemma compose_events_no_background_decode:
  "filter (\<lambda>e. stage_started e = Some DecodeBackground) (compose_events w footer args) = []"
  by (auto simp: filter_empty_conv decode_background_event compose_events_no_decode)

lemma pipeline_events_background_decode_once:
  "length (filter (\<lambda>e. stage_started e = Some DecodeBackground)
     (pipeline_events w imagePath footer v)) \<le> 1"
  by (simp add: pipeline_events_def compose_events_no_background_decode)

lemma logged_no_background_decode:
  "filter (\<lambda>e. stage_started e = Some DecodeBackground) (snd (loadSettings w)) = []"
  by (auto simp: filter_empty_conv decode_background_event logged_no_decode)

lemma callback_events_no_console: "ConsoleError m e \<notin> set (callback_events w blob_opt)"
  by (simp add: callback_events_def split: option.splits)

lemma encode_events_no_console: "ConsoleError m e \<notin> set (encode_events w out)"
  by (simp add: encode_events_def callback_events_no_console split: sum.splits)

lemma compose_events_no_console: "ConsoleError m e \<notin> set (compose_events w footer args)"
  by (simp add: compose_events_def encode_events_no_console split: sum.splits)

lemma pipeline_events_no_console:
  "ConsoleError m e \<notin> set (pipeline_events w imagePath footer v)"
  by (simp add: pipeline_events_def compose_events_no_console)

lemmas eval_defs = process_trace process_promise process_legacy_trace process_legacy_promise
  events_defs settings_defs example_defs applyForensicMetadata_def js_def

section \<open>The claims\<close>

subsection \<open>C1\<close>

text \<open>
  Claim C1. When the resolved background type is \<open>transparent\<close>, every call of the
  compositor made by \<open>processScreenshotWithDefaultBackground\<close> has \<open>padding = 0\<close> and
  the shadow with blur, offsets and opacity all 0, and the compositor is called whenever the
  source image decodes. This holds for the orchestrator with the forensic step and for the
  older one.
\<close>

theorem transparent_background_zero_padding_and_shadow:
  "(backgroundType (fst (loadSettings w)) = Transparent \<longrightarrow>
      (\<forall>args. CallCreateHighQualityCanvas args
                 \<in> set (trace (processScreenshotWithDefaultBackground w imagePath options)) \<longrightarrow>
              padding args = 0 \<and>
              shadow args = \<lparr>blur = 0, offsetX = 0, offsetY = 0, opacity = 0\<rparr>) \<and>
      (decodes w \<lparr>src = convertFileSrc w imagePath, crossOrigin = js ''anonymous''\<rparr> \<longrightarrow>
         (\<exists>args. CallCreateHighQualityCanvas args
                 \<in> set (trace (processScreenshotWithDefaultBackground w imagePath options))))) \<and>
   (backgroundType (fst (loadSettings_legacy w)) = Transparent \<longrightarrow>
      (\<forall>args. CallCreateHighQualityCanvas args
                 \<in> set (trace (processScreenshotWithDefaultBackground_legacy w imagePath)) \<longrightarrow>
              padding args = 0 \<and>
              shadow args = \<lparr>blur = 0, offsetX = 0, offsetY = 0, opacity = 0\<rparr>) \<and>
      (decodes w \<lparr>src = convertFileSrc w imagePath, crossOrigin = js ''anonymous''\<rparr> \<longrightarrow>
         (\<exists>args. CallCreateHighQualityCanvas args
                 \<in> set (trace (processScreenshotWithDefaultBackground_legacy w imagePath)))))"
  by (simp add: process_trace process_legacy_trace logged_no_compose logged_legacy_no_compose
      pipeline_events_compose plain_args_transparent source_el_def)

text \<open>
  A concrete instance of C1.
\<close>

theorem transparent_background_witness:
  "backgroundType (fst (loadSettings (example_world (Inr (example_store Transparent True)))))
     = Transparent \<and>
   CallCreateHighQualityCanvas
     \<lparr>image_arg = \<lparr>src = js ''asset:///tmp/shot.png'', crossOrigin = js ''anonymous''\<rparr>,
      backgroundType_arg = Transparent, customColor_arg = js ''#112233'',
      selectedImage = None, bgImage = None, blurAmount = 0, noiseAmount = 20,
      borderRadius = 18, padding = 0, gradientImage = None,
      shadow = \<lparr>blur = 0, offsetX = 0, offsetY = 0, opacity = 0\<rparr>\<rparr>
     \<in> set (trace (processScreenshotWithDefaultBackground
                     (example_world (Inr (example_store Transparent True)))
                     example_path example_options)) \<and>
   backgroundType (fst (loadSettings_legacy (example_world (Inr (example_store Transparent True)))))
     = Transparent \<and>
   CallCreateHighQualityCanvas
     \<lparr>image_arg = \<lparr>src = js ''asset:///tmp/shot.png'', crossOrigin = js ''anonymous''\<rparr>,
      backgroundType_arg = Transparent, customColor_arg = js ''#112233'',
      selectedImage = None, bgImage = None, blurAmount = 0, noiseAmount = 20,
      borderRadius = 18, padding = 0, gradientImage = None,
      shadow = \<lparr>blur = 0, offsetX = 0, offsetY = 0, opacity = 0\<rparr>\<rparr>
     \<in> set (trace (processScreenshotWithDefaultBackground_legacy
                     (example_world (Inr (example_store Transparent True))) example_path))"
  using transparent_background_zero_padding_and_shadow
    [of "example_world (Inr (example_store Transparent True))" example_path example_options]
  by (simp add: process_trace process_legacy_trace events_defs settings_defs example_defs
      applyForensicMetadata_def js_def)

subsection \<open>C2\<close>

text \<open>
  Claim C2, amended. For every input canvas of non-zero width and non-zero height,
  \<open>appendForensicMetadata\<close> returns, whenever a 2D context is obtained for the new
  canvas, a canvas of the input's width and of the input's height plus 64 (which is
  2 * 12 + 2 * 18 + 4). Without a context it throws its own error, and for an input canvas
  of width 0 or height 0 it throws the \<open>InvalidStateError\<close> of \<open>drawImage\<close>. Whatever it
  returns has the input's width and 64 more rows. With forensic metadata disabled
  \<open>applyForensicMetadata\<close> returns the composite canvas itself; enabled, whatever it
  returns has the input's width and 64 more rows.
\<close>

theorem footer_adds_64_rows:
  "(gc (width c) (height c + 64) \<and> 0 < width c \<and> 0 < height c \<longrightarrow>
      (\<exists>out. appendForensicMetadata gc c opts = Inr out \<and>
             width out = width c \<and> height out = height c + 64)) \<and>
   (\<not> gc (width c) (height c + 64) \<longrightarrow>
      appendForensicMetadata gc c opts
        = Inl (Error (js ''Failed to get canvas context for forensic metadata''))) \<and>
   (gc (width c) (height c + 64) \<and> (width c = 0 \<or> height c = 0) \<longrightarrow>
      appendForensicMetadata gc c opts = Inl (DOMException (js ''InvalidStateError''))) \<and>
   (\<forall>out. appendForensicMetadata gc c opts = Inr out \<longrightarrow>
      width out = width c \<and> height out = height c + 64) \<and>
   2 * 12 + 2 * 18 + 4 = (64::nat) \<and>
   (\<not> forensicEnabled v \<longrightarrow> applyForensicMetadata w options v c = Inr c) \<and>
   (forensicEnabled v \<longrightarrow>
      (\<forall>out. applyForensicMetadata w options v c = Inr out \<longrightarrow>
             width out = width c \<and> height out = height c + 64))"
  by (auto simp: appendForensicMetadata_result applyForensicMetadata_def Let_def
      split: if_splits)

text \<open>
  A concrete instance of C2.
\<close>

theorem footer_adds_64_rows_witness:
  "(0::nat) < width (Canvas 1000 800 []) \<and> (0::nat) < height (Canvas 1000 800 []) \<and>
   appendForensicMetadata (\<lambda>_ _. True) (Canvas 1000 800 [])
      \<lparr>timestampUtc = js ''2024-01-01T00:00:00Z'', userLabel = js ''security/unknown''\<rparr>
     = Inr (Canvas 1000 864
         [DrawImage (Canvas 1000 800 []) 0 0,
          FillRect (js ''#f8fafc'') 0 800 1000 64,
          Stroke (js ''#e2e8f0'') 1 [MoveTo 0 (1601 / 2), LineTo 1000 (1601 / 2)],
          FillText (js ''UTC: 2024-01-01T00:00:00Z'') 24 812
            (js ''#0f172a'') (js ''top'') (js ''14px '' @ FONT_FAMILY),
          FillText (js ''User: security/unknown'') 24 834
            (js ''#0f172a'') (js ''top'') (js ''14px '' @ FONT_FAMILY)]) \<and>
   appendForensicMetadata (\<lambda>_ _. False) (Canvas 1000 800 [])
      \<lparr>timestampUtc = js ''2024-01-01T00:00:00Z'', userLabel = js ''security/unknown''\<rparr>
     = Inl (Error (js ''Failed to get canvas context for forensic metadata'')) \<and>
   appendForensicMetadata (\<lambda>_ _. True) (Canvas 1000 0 [])
      \<lparr>timestampUtc = js ''2024-01-01T00:00:00Z'', userLabel = js ''security/unknown''\<rparr>
     = Inl (DOMException (js ''InvalidStateError'')) \<and>
   applyForensicMetadata (example_world (Inr (example_store Custom False))) example_options
      (fst (loadSettings (example_world (Inr (example_store Custom False)))))
      (Canvas 1000 800 [])
     = Inr (Canvas 1000 800 []) \<and>
   map_sum id (\<lambda>out. (width out, height out))
     (applyForensicMetadata (example_world (Inr (example_store Custom True))) example_options
        (fst (loadSettings (example_world (Inr (example_store Custom True)))))
        (Canvas 1000 800 []))
     = Inr (1000, 864)"
  using footer_adds_64_rows [of "\<lambda>_ _. True" "Canvas 1000 800 []"
      "\<lparr>timestampUtc = js ''2024-01-01T00:00:00Z'', userLabel = js ''security/unknown''\<rparr>"
      "fst (loadSettings (example_world (Inr (example_store Custom False))))"
      "example_world (Inr (example_store Custom False))" example_options]
  by (simp add: appendForensicMetadata_result applyForensicMetadata_def settings_defs
      example_defs js_def)

text \<open>
  Claim C2 as stated, for every input canvas, fails for a canvas of width 0: no canvas is
  returned.
\<close>

theorem footer_adds_64_rows_counterexample:
  "appendForensicMetadata (\<lambda>_ _. True) (Canvas 0 600 [])
      \<lparr>timestampUtc = js ''2024-01-01T00:00:00Z'', userLabel = js ''security/unknown''\<rparr>
     = Inl (DOMException (js ''InvalidStateError''))"
  by (simp add: appendForensicMetadata_result)

subsection \<open>C3\<close>

text \<open>
  Claim C3. The text drawn by \<open>appendForensicMetadata\<close> is exactly two lines,
  \<open>"UTC: " + timestampUtc\<close> at (24, height + 12) and \<open>"User: " + userLabel\<close> 22 pixels
  lower, both with fill style \<open>#0f172a\<close> and baseline \<open>top\<close>. \<open>buildUserLabel\<close> joins team
  and user with a slash, each replaced by \<open>unknown\<close> exactly when it consists of whitespace
  only (it is blank after trimming) and otherwise rendered trimmed. In the pipeline the label
  is built from the forensic team and user of the settings.
\<close>

theorem footer_text_lines:
  "(\<forall>out. appendForensicMetadata gc c opts = Inr out \<longrightarrow>
      filter is_text (drawn out) =
        [FillText (js ''UTC: '' @ timestampUtc opts) 24 (of_nat (height c) + 12)
           (js ''#0f172a'') (js ''top'') (js ''14px '' @ FONT_FAMILY),
         FillText (js ''User: '' @ userLabel opts) 24 (of_nat (height c) + 12 + 22)
           (js ''#0f172a'') (js ''top'') (js ''14px '' @ FONT_FAMILY)]) \<and>
   buildUserLabel team user =
     (if \<forall>x\<in>set team. isWhiteSpace x then js ''unknown'' else trim team) @ js ''/'' @
     (if \<forall>x\<in>set user. isWhiteSpace x then js ''unknown'' else trim user) \<and>
   (forensicEnabled v \<longrightarrow>
      (\<forall>out. applyForensicMetadata w options v c = Inr out \<longrightarrow>
         map text_string (filter is_text (drawn out)) =
           [js ''UTC: '' @
              (case options_timestampUtc options of Some t \<Rightarrow> t | None \<Rightarrow> now_toISOString w),
            js ''User: '' @ buildUserLabel (forensicTeam v) (forensicUser v)]))"
  by (auto simp: appendForensicMetadata_result applyForensicMetadata_def Let_def
      buildUserLabel_def or_else_def truthy_def trim_blank split: if_splits)

text \<open>
  A concrete instance of C3.
\<close>

theorem footer_text_lines_witness:
  "forensicEnabled (fst (loadSettings (example_world (Inr (example_store Custom True))))) \<and>
   map_sum id (\<lambda>out. map (\<lambda>t. (text_string t, text_x t, text_y t, text_fillStyle t,
                                text_textBaseline t))
                       (filter is_text (drawn out)))
     (applyForensicMetadata (example_world (Inr (example_store Custom True))) example_options
        (fst (loadSettings (example_world (Inr (example_store Custom True)))))
        (Canvas 1000 800 []))
     = Inr [(js ''UTC: 2024-01-01T00:00:00Z'', 24, 812, js ''#0f172a'', js ''top''),
            (js ''User: security/unknown'', 24, 834, js ''#0f172a'', js ''top'')] \<and>
   buildUserLabel (js ''  ops '') (js '' '') = js ''ops/unknown''"
  using footer_text_lines
    [of "\<lambda>_ _. True" "Canvas 1000 800 []"
      "\<lparr>timestampUtc = js ''2024-01-01T00:00:00Z'', userLabel = js ''security/unknown''\<rparr>"
      "js ''  ops ''" "js '' ''"
      "fst (loadSettings (example_world (Inr (example_store Custom True))))"
      "example_world (Inr (example_store Custom True))" example_options]
  by (simp add: appendForensicMetadata_result applyForensicMetadata_def settings_defs
      example_defs buildUserLabel_def or_else_def trim_def isWhiteSpace_def js_def)

subsection \<open>C4\<close>

text \<open>
  Claim C4. With \<open>resolveBackgroundPath\<close> as the spec describes it and a stored
  background reference the registry cannot resolve, the background reference the pipeline
  uses is the built-in default: the only background decode ever started is that of the
  default path, it is started at most once, and it is started whenever the type is
  \<open>image\<close> or \<open>gradient\<close> and the source decodes; when the settings were read,
  nothing is written to the console. The background-load error is raised only
  if the default itself does not decode; when it decodes the compositor receives the default
  background and the outcome is that of composition and encoding.
\<close>

theorem stale_background_falls_back_to_default:
  assumes spec: "resolveBackgroundPath w
      = resolveBackgroundPath_spec registry (getDefaultBackgroundPath w)"
    and stale: "\<forall>store r. Store_load w (js ''settings.json'') = Inr store \<and>
      get_defaultBackgroundImage store = Inr (Some r) \<longrightarrow> registry r = None"
  shows "defaultBgImage (fst (loadSettings w)) = getDefaultBackgroundPath w \<and>
    (\<forall>u. SetSrc BackgroundImage u
            \<in> set (trace (processScreenshotWithDefaultBackground w imagePath options)) \<longrightarrow>
          u = getDefaultBackgroundPath w) \<and>
    length (filter (\<lambda>e. stage_started e = Some DecodeBackground)
      (trace (processScreenshotWithDefaultBackground w imagePath options))) \<le> 1 \<and>
    ((backgroundType (fst (loadSettings w)) = Image \<or>
      backgroundType (fst (loadSettings w)) = Gradient) \<and>
     decodes w \<lparr>src = convertFileSrc w imagePath, crossOrigin = js ''anonymous''\<rparr> \<longrightarrow>
       SetSrc BackgroundImage (getDefaultBackgroundPath w)
         \<in> set (trace (processScreenshotWithDefaultBackground w imagePath options))) \<and>
    ((\<exists>s. read_settings w = Inr s) \<longrightarrow>
       (\<forall>m e. ConsoleError m e
                \<notin> set (trace (processScreenshotWithDefaultBackground w imagePath options)))) \<and>
    (Onerror BackgroundImage
       \<in> set (trace (processScreenshotWithDefaultBackground w imagePath options)) \<longrightarrow>
     \<not> decodes w \<lparr>src = getDefaultBackgroundPath w, crossOrigin = js ''anonymous''\<rparr>) \<and>
    ((backgroundType (fst (loadSettings w)) = Image \<or>
      backgroundType (fst (loadSettings w)) = Gradient) \<and>
     decodes w \<lparr>src = convertFileSrc w imagePath, crossOrigin = js ''anonymous''\<rparr> \<and>
     decodes w \<lparr>src = getDefaultBackgroundPath w, crossOrigin = js ''anonymous''\<rparr> \<longrightarrow>
       (\<exists>args. CallCreateHighQualityCanvas args
                 \<in> set (trace (processScreenshotWithDefaultBackground w imagePath options)) \<and>
              (bgImage args = Some \<lparr>src = getDefaultBackgroundPath w, crossOrigin = js ''anonymous''\<rparr> \<or>
               gradientImage args
                 = Some \<lparr>src = getDefaultBackgroundPath w, crossOrigin = js ''anonymous''\<rparr>) \<and>
              promise (processScreenshotWithDefaultBackground w imagePath options) =
                (case createHighQualityCanvas w args of
                   Inl err \<Rightarrow> Rejected err
                 | Inr canvas \<Rightarrow>
                     (case applyForensicMetadata w options (fst (loadSettings w)) canvas of
                        Inl err \<Rightarrow> Rejected err
                      | Inr out \<Rightarrow>
                          (case toBlob w out (js ''image/png'') 1 of
                             Inl err \<Rightarrow> Rejected err
                           | Inr None \<Rightarrow> Rejected (Error (js ''Failed to create blob from canvas''))
                           | Inr (Some b) \<Rightarrow>
                               (case readAsDataURL w b of
                                  None \<Rightarrow> Rejected (Error (js ''Failed to read processed image''))
                                | Some url \<Rightarrow> Resolved (DataURL url)))))))"
proof -
  let ?v = "fst (loadSettings w)"
  let ?f = "applyForensicMetadata w options ?v"
  have dflt: "defaultBgImage ?v = getDefaultBackgroundPath w"
    using loadSettings_cases [of w]
  proof (elim disjE exE conjE)
    fix err
    assume "loadSettings w = (initial_settings w,
        [ConsoleError (js ''Failed to load default background from settings:'') err])"
    then show ?thesis by (simp add: initial_settings_fields)
  next
    fix s
    assume rd: "read_settings w = Inr s"
      and ld: "loadSettings w = (assign_settings w s (initial_settings w), [])"
    from read_settings_store [OF rd] stale
    have "\<forall>r. storedDefaultBg s = Some r \<longrightarrow> registry r = None" by auto
    then show ?thesis
      by (auto simp: ld assign_defaultBgImage initial_settings_fields spec
          resolveBackgroundPath_spec_def split: option.splits)
  qed
  have bg_el: "background_el ?v = \<lparr>src = getDefaultBackgroundPath w, crossOrigin = js ''anonymous''\<rparr>"
    by (simp add: background_el_def dflt)
  have fallback: "\<forall>u. SetSrc BackgroundImage u \<in> set (snd (loadSettings w) @
      pipeline_events w imagePath ?f ?v) \<longrightarrow> u = getDefaultBackgroundPath w"
    by (simp add: logged_no_decode pipeline_events_background_src dflt)
  have once: "length (filter (\<lambda>e. stage_started e = Some DecodeBackground)
      (snd (loadSettings w) @ pipeline_events w imagePath ?f ?v)) \<le> 1"
    using pipeline_events_background_decode_once [of w imagePath ?f ?v]
    by (simp add: logged_no_background_decode)
  have attempted: "(backgroundType ?v = Image \<or> backgroundType ?v = Gradient) \<and>
      decodes w \<lparr>src = convertFileSrc w imagePath, crossOrigin = js ''anonymous''\<rparr> \<longrightarrow>
      SetSrc BackgroundImage (getDefaultBackgroundPath w)
        \<in> set (snd (loadSettings w) @ pipeline_events w imagePath ?f ?v)"
    by (simp add: pipeline_events_background_src dflt source_el_def)
  have silent: "(\<exists>s. read_settings w = Inr s) \<longrightarrow>
      (\<forall>m e. ConsoleError m e \<notin> set (snd (loadSettings w) @
        pipeline_events w imagePath ?f ?v))"
    by (auto simp: loadSettings_def try_load_settings_def pipeline_events_no_console)
  have err: "Onerror BackgroundImage \<in> set (snd (loadSettings w) @
      pipeline_events w imagePath ?f ?v) \<longrightarrow>
      \<not> decodes w \<lparr>src = getDefaultBackgroundPath w, crossOrigin = js ''anonymous''\<rparr>"
    by (simp add: logged_no_decode pipeline_events_background_error bg_el)
  have ok: "\<exists>args. CallCreateHighQualityCanvas args
        \<in> set (snd (loadSettings w) @ pipeline_events w imagePath ?f ?v) \<and>
      (bgImage args = Some \<lparr>src = getDefaultBackgroundPath w, crossOrigin = js ''anonymous''\<rparr> \<or>
       gradientImage args
         = Some \<lparr>src = getDefaultBackgroundPath w, crossOrigin = js ''anonymous''\<rparr>) \<and>
      pipeline_outcome w imagePath ?f ?v =
        (case createHighQualityCanvas w args of
           Inl err \<Rightarrow> Rejected err
         | Inr canvas \<Rightarrow>
             (case ?f canvas of
                Inl err \<Rightarrow> Rejected err
              | Inr out \<Rightarrow>
                  (case toBlob w out (js ''image/png'') 1 of
                     Inl err \<Rightarrow> Rejected err
                   | Inr None \<Rightarrow> Rejected (Error (js ''Failed to create blob from canvas''))
                   | Inr (Some b) \<Rightarrow>
                       (case readAsDataURL w b of
                          None \<Rightarrow> Rejected (Error (js ''Failed to read processed image''))
                        | Some url \<Rightarrow> Resolved (DataURL url)))))"
    if "backgroundType ?v = Image \<or> backgroundType ?v = Gradient"
      and "decodes w \<lparr>src = convertFileSrc w imagePath, crossOrigin = js ''anonymous''\<rparr>"
      and "decodes w \<lparr>src = getDefaultBackgroundPath w, crossOrigin = js ''anonymous''\<rparr>"
  proof (intro exI [of _ "background_args ?v (source_el w imagePath) (background_el ?v)"] conjI)
    show "CallCreateHighQualityCanvas (background_args ?v (source_el w imagePath) (background_el ?v))
        \<in> set (snd (loadSettings w) @ pipeline_events w imagePath ?f ?v)"
      using that by (simp add: pipeline_events_compose bg_el source_el_def)
    show "bgImage (background_args ?v (source_el w imagePath) (background_el ?v))
          = Some \<lparr>src = getDefaultBackgroundPath w, crossOrigin = js ''anonymous''\<rparr> \<or>
        gradientImage (background_args ?v (source_el w imagePath) (background_el ?v))
          = Some \<lparr>src = getDefaultBackgroundPath w, crossOrigin = js ''anonymous''\<rparr>"
      by (simp add: background_args_def bg_el)
    show "pipeline_outcome w imagePath ?f ?v =
        (case createHighQualityCanvas w
            (background_args ?v (source_el w imagePath) (background_el ?v)) of
           Inl err \<Rightarrow> Rejected err
         | Inr canvas \<Rightarrow>
             (case ?f canvas of
                Inl err \<Rightarrow> Rejected err
              | Inr out \<Rightarrow>
                  (case toBlob w out (js ''image/png'') 1 of
                     Inl err \<Rightarrow> Rejected err
                   | Inr None \<Rightarrow> Rejected (Error (js ''Failed to create blob from canvas''))
                   | Inr (Some b) \<Rightarrow>
                       (case readAsDataURL w b of
                          None \<Rightarrow> Rejected (Error (js ''Failed to read processed image''))
                        | Some url \<Rightarrow> Resolved (DataURL url)))))"
      using that
      by (simp add: pipeline_outcome_def compose_outcome_def encode_outcome_def
          callback_outcome_def bg_el source_el_def split: sum.splits option.splits)
  qed
  from dflt fallback once attempted silent err ok show ?thesis
    unfolding process_trace process_promise by blast
qed

text \<open>
  A concrete instance of C4.
\<close>

theorem stale_background_witness:
  "resolveBackgroundPath stale_world
     = resolveBackgroundPath_spec example_registry (getDefaultBackgroundPath stale_world) \<and>
   example_registry (js ''asset-old'') = None \<and>
   backgroundType (fst (loadSettings stale_world)) = Gradient \<and>
   defaultBgImage (fst (loadSettings stale_world)) = js ''/default.jpg'' \<and>
   SetSrc BackgroundImage (js ''/default.jpg'')
     \<in> set (trace (processScreenshotWithDefaultBackground stale_world example_path
                     example_options)) \<and>
   promise (processScreenshotWithDefaultBackground stale_world example_path example_options)
     = Resolved (DataURL (js ''data:image/png;base64,''))"
proof -
  have h1: "resolveBackgroundPath stale_world
     = resolveBackgroundPath_spec example_registry (getDefaultBackgroundPath stale_world)"
    by (simp add: stale_world_def example_world_def)
  have h2: "\<forall>store r. Store_load stale_world (js ''settings.json'') = Inr store \<and>
      get_defaultBackgroundImage store = Inr (Some r) \<longrightarrow> example_registry r = None"
    by (auto simp: stale_world_def example_world_def example_store_def example_registry_def js_def)
  from stale_background_falls_back_to_default [OF h1 h2, of example_path example_options] h1
  show ?thesis
    by (simp add: eval_defs stale_world_def example_registry_def resolveBackgroundPath_spec_def)
qed

subsection \<open>C5\<close>

text \<open>
  Claim C5. When \<open>Store.load\<close> throws, the variables keep their defaults (type
  \<open>image\<close>, colour \<open>#667eea\<close>, the built-in default background path, forensic metadata
  disabled), the failure is written to the console, and the pipeline goes on to decode the
  source image: with every later stage succeeding the promise resolves with the data URL.
  This holds for both orchestrators.
\<close>

theorem settings_load_failure_uses_defaults:
  assumes "Store_load w (js ''settings.json'') = Inl err"
  shows "loadSettings w =
      (\<lparr>backgroundType = Image, customColor = js ''#667eea'',
        defaultBgImage = getDefaultBackgroundPath w,
        forensicEnabled = False, forensicTeam = [], forensicUser = []\<rparr>,
       [ConsoleError (js ''Failed to load default background from settings:'') err]) \<and>
    loadSettings_legacy w =
      (\<lparr>backgroundType = Image, customColor = js ''#667eea'',
        defaultBgImage = getDefaultBackgroundPath w\<rparr>,
       [ConsoleError (js ''Failed to load default background from settings:'') err]) \<and>
    (\<exists>rest. trace (processScreenshotWithDefaultBackground w imagePath options) =
       ConsoleError (js ''Failed to load default background from settings:'') err #
       SetSrc SourceImage (convertFileSrc w imagePath) # rest) \<and>
    (\<exists>rest. trace (processScreenshotWithDefaultBackground_legacy w imagePath) =
       ConsoleError (js ''Failed to load default background from settings:'') err #
       SetSrc SourceImage (convertFileSrc w imagePath) # rest) \<and>
    (\<forall>canvas b url.
       decodes w \<lparr>src = convertFileSrc w imagePath, crossOrigin = js ''anonymous''\<rparr> \<and>
       decodes w \<lparr>src = getDefaultBackgroundPath w, crossOrigin = js ''anonymous''\<rparr> \<and>
       createHighQualityCanvas w
         \<lparr>image_arg = \<lparr>src = convertFileSrc w imagePath, crossOrigin = js ''anonymous''\<rparr>,
          backgroundType_arg = Image,
          customColor_arg = js ''#667eea'',
          selectedImage = Some (getDefaultBackgroundPath w),
          bgImage = Some \<lparr>src = getDefaultBackgroundPath w, crossOrigin = js ''anonymous''\<rparr>,
          blurAmount = 0, noiseAmount = 20, borderRadius = 18, padding = 100,
          gradientImage = None,
          shadow = \<lparr>blur = 33, offsetX = 18, offsetY = 23, opacity = 39\<rparr>\<rparr> = Inr canvas \<and>
       toBlob w canvas (js ''image/png'') 1 = Inr (Some b) \<and>
       readAsDataURL w b = Some url \<longrightarrow>
         promise (processScreenshotWithDefaultBackground w imagePath options)
           = Resolved (DataURL url) \<and>
         promise (processScreenshotWithDefaultBackground_legacy w imagePath)
           = Resolved (DataURL url))"
proof -
  note new = load_failure_new [OF assms]
  note old = load_failure_legacy [OF assms]
  have 1: "loadSettings w =
      (\<lparr>backgroundType = Image, customColor = js ''#667eea'',
        defaultBgImage = getDefaultBackgroundPath w,
        forensicEnabled = False, forensicTeam = [], forensicUser = []\<rparr>,
       [ConsoleError (js ''Failed to load default background from settings:'') err])"
    by (simp add: new initial_settings_def)
  have 2: "loadSettings_legacy w =
      (\<lparr>backgroundType = Image, customColor = js ''#667eea'',
        defaultBgImage = getDefaultBackgroundPath w\<rparr>,
       [ConsoleError (js ''Failed to load default background from settings:'') err])"
    by (simp add: old initial_settings_legacy_def)
  have 3: "\<exists>rest. trace (processScreenshotWithDefaultBackground w imagePath options) =
       ConsoleError (js ''Failed to load default background from settings:'') err #
       SetSrc SourceImage (convertFileSrc w imagePath) # rest"
    by (simp add: process_trace new pipeline_events_def)
  have 4: "\<exists>rest. trace (processScreenshotWithDefaultBackground_legacy w imagePath) =
       ConsoleError (js ''Failed to load default background from settings:'') err #
       SetSrc SourceImage (convertFileSrc w imagePath) # rest"
    by (simp add: process_legacy_trace old pipeline_events_def)
  have 5: "promise (processScreenshotWithDefaultBackground w imagePath options)
           = Resolved (DataURL url) \<and>
         promise (processScreenshotWithDefaultBackground_legacy w imagePath)
           = Resolved (DataURL url)"
    if "decodes w \<lparr>src = convertFileSrc w imagePath, crossOrigin = js ''anonymous''\<rparr>"
      "decodes w \<lparr>src = getDefaultBackgroundPath w, crossOrigin = js ''anonymous''\<rparr>"
      "createHighQualityCanvas w
         \<lparr>image_arg = \<lparr>src = convertFileSrc w imagePath, crossOrigin = js ''anonymous''\<rparr>,
          backgroundType_arg = Image,
          customColor_arg = js ''#667eea'',
          selectedImage = Some (getDefaultBackgroundPath w),
          bgImage = Some \<lparr>src = getDefaultBackgroundPath w, crossOrigin = js ''anonymous''\<rparr>,
          blurAmount = 0, noiseAmount = 20, borderRadius = 18, padding = 100,
          gradientImage = None,
          shadow = \<lparr>blur = 33, offsetX = 18, offsetY = 23, opacity = 39\<rparr>\<rparr> = Inr canvas"
      "toBlob w canvas (js ''image/png'') 1 = Inr (Some b)"
      "readAsDataURL w b = Some url"
    for canvas b url
    using that
    by (simp add: process_promise process_legacy_promise 1 2 pipeline_outcome_def
        compose_outcome_def encode_outcome_def callback_outcome_def applyForensicMetadata_def
        source_el_def background_el_def background_args_def)
  from 1 2 3 4 5 show ?thesis by blast
qed

text \<open>
  A concrete instance of C5.
\<close>

theorem settings_load_failure_witness:
  "Store_load (example_world (Inl (Error (js ''store unavailable'')))) (js ''settings.json'')
     = Inl (Error (js ''store unavailable'')) \<and>
   loadSettings (example_world (Inl (Error (js ''store unavailable'')))) =
     (\<lparr>backgroundType = Image, customColor = js ''#667eea'',
       defaultBgImage = js ''/default.jpg'',
       forensicEnabled = False, forensicTeam = [], forensicUser = []\<rparr>,
      [ConsoleError (js ''Failed to load default background from settings:'')
         (Error (js ''store unavailable''))]) \<and>
   promise (processScreenshotWithDefaultBackground
              (example_world (Inl (Error (js ''store unavailable''))))
              example_path example_options)
     = Resolved (DataURL (js ''data:image/png;base64,''))"
proof -
  have h: "Store_load (example_world (Inl (Error (js ''store unavailable'')))) (js ''settings.json'')
     = Inl (Error (js ''store unavailable''))"
    by (simp add: example_world_def)
  from settings_load_failure_uses_defaults [OF h, of example_path example_options] h
  show ?thesis by (simp add: example_defs js_def)
qed

subsection \<open>C6\<close>

text \<open>
  Claim C6. Every invocation settles its promise. It is rejected when the source image
  does not decode, when the background image does not decode, when the compositor or
  \<open>toBlob\<close> throws, when \<open>toBlob\<close> yields no blob and when reading the blob fails; a
  rejected invocation never resolves with a data URL; and no stage is started twice in one
  invocation.
\<close>

theorem stage_failures_are_terminal:
  "promise (processScreenshotWithDefaultBackground w imagePath options) \<noteq> Pending \<and>
   (\<not> decodes w \<lparr>src = convertFileSrc w imagePath, crossOrigin = js ''anonymous''\<rparr> \<longrightarrow>
      promise (processScreenshotWithDefaultBackground w imagePath options)
        = Rejected (Error (js ''Failed to load image from: '' @ imagePath))) \<and>
   (Onerror BackgroundImage
      \<in> set (trace (processScreenshotWithDefaultBackground w imagePath options)) \<longrightarrow>
      promise (processScreenshotWithDefaultBackground w imagePath options)
        = Rejected (Error (js ''Failed to load background image''))) \<and>
   (decodes w \<lparr>src = convertFileSrc w imagePath, crossOrigin = js ''anonymous''\<rparr> \<and>
    (backgroundType (fst (loadSettings w)) = Image \<or>
     backgroundType (fst (loadSettings w)) = Gradient) \<and>
    \<not> decodes w \<lparr>src = defaultBgImage (fst (loadSettings w)), crossOrigin = js ''anonymous''\<rparr> \<longrightarrow>
      Onerror BackgroundImage
        \<in> set (trace (processScreenshotWithDefaultBackground w imagePath options))) \<and>
   (\<forall>args err.
      CallCreateHighQualityCanvas args
        \<in> set (trace (processScreenshotWithDefaultBackground w imagePath options)) \<and>
      createHighQualityCanvas w args = Inl err \<longrightarrow>
      promise (processScreenshotWithDefaultBackground w imagePath options) = Rejected err) \<and>
   (\<forall>c m q err.
      CallToBlob c m q \<in> set (trace (processScreenshotWithDefaultBackground w imagePath options)) \<and>
      toBlob w c m q = Inl err \<longrightarrow>
      promise (processScreenshotWithDefaultBackground w imagePath options) = Rejected err) \<and>
   (\<forall>c m q.
      CallToBlob c m q \<in> set (trace (processScreenshotWithDefaultBackground w imagePath options)) \<and>
      toBlob w c m q = Inr None \<longrightarrow>
      promise (processScreenshotWithDefaultBackground w imagePath options)
        = Rejected (Error (js ''Failed to create blob from canvas''))) \<and>
   (\<forall>b.
      CallReadAsDataURL b
        \<in> set (trace (processScreenshotWithDefaultBackground w imagePath options)) \<and>
      readAsDataURL w b = None \<longrightarrow>
      promise (processScreenshotWithDefaultBackground w imagePath options)
        = Rejected (Error (js ''Failed to read processed image''))) \<and>
   (\<forall>err url.
      promise (processScreenshotWithDefaultBackground w imagePath options) = Rejected err \<longrightarrow>
      CallResolve (DataURL url)
        \<notin> set (trace (processScreenshotWithDefaultBackground w imagePath options))) \<and>
   distinct (stages_started (trace (processScreenshotWithDefaultBackground w imagePath options)))"
proof -
  let ?v = "fst (loadSettings w)"
  let ?f = "applyForensicMetadata w options ?v"
  let ?ev = "pipeline_events w imagePath ?f ?v"
  let ?out = "pipeline_outcome w imagePath ?f ?v"
  have mem [simp]:
    "Onerror r \<notin> set (snd (loadSettings w))"
    "CallCreateHighQualityCanvas a \<notin> set (snd (loadSettings w))"
    "CallToBlob c m q \<notin> set (snd (loadSettings w))"
    "CallReadAsDataURL b \<notin> set (snd (loadSettings w))"
    "CallResolve x \<notin> set (snd (loadSettings w))"
    for r a c m q b x
    by (auto dest: logged_only_console)
  have 1: "?out \<noteq> Pending" by (rule pipeline_outcome_settled)
  have 2: "\<not> decodes w \<lparr>src = convertFileSrc w imagePath, crossOrigin = js ''anonymous''\<rparr> \<longrightarrow>
      ?out = Rejected (Error (js ''Failed to load image from: '' @ imagePath))"
    by (simp add: pipeline_outcome_def source_el_def)
  have 3: "Onerror BackgroundImage \<in> set (snd (loadSettings w) @ ?ev) \<longrightarrow>
      ?out = Rejected (Error (js ''Failed to load background image''))"
    by (auto simp: pipeline_events_background_error pipeline_outcome_def)
  have 4: "decodes w \<lparr>src = convertFileSrc w imagePath, crossOrigin = js ''anonymous''\<rparr> \<and>
      (backgroundType ?v = Image \<or> backgroundType ?v = Gradient) \<and>
      \<not> decodes w \<lparr>src = defaultBgImage ?v, crossOrigin = js ''anonymous''\<rparr> \<longrightarrow>
      Onerror BackgroundImage \<in> set (snd (loadSettings w) @ ?ev)"
    by (simp add: pipeline_events_background_error source_el_def background_el_def)
  have 5: "\<forall>args err. CallCreateHighQualityCanvas args \<in> set (snd (loadSettings w) @ ?ev) \<and>
      createHighQualityCanvas w args = Inl err \<longrightarrow> ?out = Rejected err"
    by (auto dest!: pipeline_events_compose_failed)
  have 6: "\<forall>c m q err. CallToBlob c m q \<in> set (snd (loadSettings w) @ ?ev) \<and>
      toBlob w c m q = Inl err \<longrightarrow> ?out = Rejected err"
    by (auto dest!: pipeline_events_toBlob simp: encode_outcome_def)
  have 7: "\<forall>c m q. CallToBlob c m q \<in> set (snd (loadSettings w) @ ?ev) \<and>
      toBlob w c m q = Inr None \<longrightarrow>
      ?out = Rejected (Error (js ''Failed to create blob from canvas''))"
    by (auto dest!: pipeline_events_toBlob simp: encode_outcome_def callback_outcome_def)
  have 8: "\<forall>b. CallReadAsDataURL b \<in> set (snd (loadSettings w) @ ?ev) \<and>
      readAsDataURL w b = None \<longrightarrow>
      ?out = Rejected (Error (js ''Failed to read processed image''))"
    by (auto dest!: pipeline_events_read simp: callback_outcome_def)
  have 9: "\<forall>err url. ?out = Rejected err \<longrightarrow>
      CallResolve (DataURL url) \<notin> set (snd (loadSettings w) @ ?ev)"
    by (auto dest!: pipeline_events_resolve)
  have 10: "distinct (stages_started (snd (loadSettings w) @ ?ev))"
    by (simp add: stages_started_append logged_stages pipeline_events_stages)
  from 1 2 3 4 5 6 7 8 9 10 show ?thesis
    unfolding process_trace process_promise by blast
qed

text \<open>
  A concrete instance of C6.
\<close>

theorem stage_failures_witness:
  "\<not> decodes (failing_world (\<lambda>w. w\<lparr>decodes := \<lambda>_. False\<rparr>))
       \<lparr>src = convertFileSrc (failing_world (\<lambda>w. w\<lparr>decodes := \<lambda>_. False\<rparr>)) example_path,
        crossOrigin = js ''anonymous''\<rparr> \<and>
   promise (processScreenshotWithDefaultBackground
              (failing_world (\<lambda>w. w\<lparr>decodes := \<lambda>_. False\<rparr>)) example_path example_options)
     = Rejected (Error (js ''Failed to load image from: /tmp/shot.png'')) \<and>
   Onerror BackgroundImage
     \<in> set (trace (processScreenshotWithDefaultBackground
              (failing_world (\<lambda>w. w\<lparr>decodes := \<lambda>el. src el = js ''asset:///tmp/shot.png''\<rparr>))
              example_path example_options)) \<and>
   promise (processScreenshotWithDefaultBackground
              (failing_world (\<lambda>w. w\<lparr>decodes := \<lambda>el. src el = js ''asset:///tmp/shot.png''\<rparr>))
              example_path example_options)
     = Rejected (Error (js ''Failed to load background image'')) \<and>
   CallToBlob (Canvas 1000 800 []) (js ''image/png'') 1
     \<in> set (trace (processScreenshotWithDefaultBackground
              (failing_world (\<lambda>w. w\<lparr>toBlob := \<lambda>_ _ _. Inr None\<rparr>))
              example_path example_options)) \<and>
   promise (processScreenshotWithDefaultBackground
              (failing_world (\<lambda>w. w\<lparr>toBlob := \<lambda>_ _ _. Inr None\<rparr>))
              example_path example_options)
     = Rejected (Error (js ''Failed to create blob from canvas'')) \<and>
   CallReadAsDataURL (Blob (js ''image/png'') [])
     \<in> set (trace (processScreenshotWithDefaultBackground
              (failing_world (\<lambda>w. w\<lparr>readAsDataURL := \<lambda>_. None\<rparr>))
              example_path example_options)) \<and>
   promise (processScreenshotWithDefaultBackground
              (failing_world (\<lambda>w. w\<lparr>readAsDataURL := \<lambda>_. None\<rparr>))
              example_path example_options)
     = Rejected (Error (js ''Failed to read processed image''))"
proof -
  let ?w1 = "failing_world (\<lambda>w. w\<lparr>decodes := \<lambda>_. False\<rparr>)"
  let ?w2 = "failing_world (\<lambda>w. w\<lparr>decodes := \<lambda>el. src el = js ''asset:///tmp/shot.png''\<rparr>)"
  let ?w3 = "failing_world (\<lambda>w. w\<lparr>toBlob := \<lambda>_ _ _. Inr None\<rparr>)"
  let ?w4 = "failing_world (\<lambda>w. w\<lparr>readAsDataURL := \<lambda>_. None\<rparr>)"
  have a1: "\<not> decodes ?w1 \<lparr>src = convertFileSrc ?w1 example_path, crossOrigin = js ''anonymous''\<rparr>"
    by (simp add: failing_world_def example_world_def)
  have a2: "Onerror BackgroundImage
      \<in> set (trace (processScreenshotWithDefaultBackground ?w2 example_path example_options))"
    by (simp add: eval_defs failing_world_def)
  have a3: "CallToBlob (Canvas 1000 800 []) (js ''image/png'') 1
      \<in> set (trace (processScreenshotWithDefaultBackground ?w3 example_path example_options)) \<and>
      toBlob ?w3 (Canvas 1000 800 []) (js ''image/png'') 1 = Inr None"
    by (simp add: eval_defs failing_world_def)
  have a4: "CallReadAsDataURL (Blob (js ''image/png'') [])
      \<in> set (trace (processScreenshotWithDefaultBackground ?w4 example_path example_options)) \<and>
      readAsDataURL ?w4 (Blob (js ''image/png'') []) = None"
    by (simp add: eval_defs failing_world_def)
  have c1: "promise (processScreenshotWithDefaultBackground ?w1 example_path example_options)
      = Rejected (Error (js ''Failed to load image from: '' @ example_path))"
    using stage_failures_are_terminal [of ?w1 example_path example_options] a1 by blast
  have c2: "promise (processScreenshotWithDefaultBackground ?w2 example_path example_options)
      = Rejected (Error (js ''Failed to load background image''))"
    using stage_failures_are_terminal [of ?w2 example_path example_options] a2 by blast
  have c3: "promise (processScreenshotWithDefaultBackground ?w3 example_path example_options)
      = Rejected (Error (js ''Failed to create blob from canvas''))"
    using stage_failures_are_terminal [of ?w3 example_path example_options] a3 by blast
  have c4: "promise (processScreenshotWithDefaultBackground ?w4 example_path example_options)
      = Rejected (Error (js ''Failed to read processed image''))"
    using stage_failures_are_terminal [of ?w4 example_path example_options] a4 by blast
  have p: "js ''Failed to load image from: '' @ example_path
      = js ''Failed to load image from: /tmp/shot.png''"
    by (simp add: example_path_def js_def)
  from a1 a2 a3 a4 c1 c2 c3 c4 show ?thesis unfolding p by blast
qed

subsection \<open>C7\<close>

text \<open>
  Claim C7. In the trace of an invocation every assignment to \<open>bgImage.src\<close> comes after
  the \<open>load\<close> event of the source image, in both orchestrators.
\<close>

theorem background_decode_starts_after_source_decode:
  "(\<forall>pre post u.
      trace (processScreenshotWithDefaultBackground w imagePath options)
        = pre @ SetSrc BackgroundImage u # post \<longrightarrow>
      Onload SourceImage \<in> set pre) \<and>
   (\<forall>pre post u.
      trace (processScreenshotWithDefaultBackground_legacy w imagePath)
        = pre @ SetSrc BackgroundImage u # post \<longrightarrow>
      Onload SourceImage \<in> set pre)"
  using trace_order [of "snd (loadSettings w)" w imagePath
      "applyForensicMetadata w options (fst (loadSettings w))" "fst (loadSettings w)"]
    trace_order [of "snd (loadSettings_legacy w)" w imagePath Inr "fst (loadSettings_legacy w)"]
  by (simp add: process_trace process_legacy_trace logged_no_decode logged_legacy_no_decode)

text \<open>
  A concrete instance of C7.
\<close>

theorem background_decode_order_witness:
  "trace (processScreenshotWithDefaultBackground
            (example_world (Inr (example_store Gradient False))) example_path example_options)
     = [SetSrc SourceImage (js ''asset:///tmp/shot.png''), Onload SourceImage]
       @ SetSrc BackgroundImage (js ''/assets/asset-7'')
       # [Onload BackgroundImage,
          CallCreateHighQualityCanvas
            \<lparr>image_arg = \<lparr>src = js ''asset:///tmp/shot.png'', crossOrigin = js ''anonymous''\<rparr>,
             backgroundType_arg = Gradient, customColor_arg = js ''#112233'',
             selectedImage = None, bgImage = None, blurAmount = 0, noiseAmount = 20,
             borderRadius = 18, padding = 100,
             gradientImage = Some \<lparr>src = js ''/assets/asset-7'', crossOrigin = js ''anonymous''\<rparr>,
             shadow = \<lparr>blur = 33, offsetX = 18, offsetY = 23, opacity = 39\<rparr>\<rparr>,
          CallToBlob (Canvas 1000 800 []) (js ''image/png'') 1,
          CallReadAsDataURL (Blob (js ''image/png'') []),
          CallResolve (DataURL (js ''data:image/png;base64,''))] \<and>
   Onload SourceImage
     \<in> set [SetSrc SourceImage (js ''asset:///tmp/shot.png''), Onload SourceImage]"
  using background_decode_starts_after_source_decode
    [of "example_world (Inr (example_store Gradient False))" example_path example_options]
  by (simp add: process_trace events_defs settings_defs example_defs
      applyForensicMetadata_def js_def)

subsection \<open>C8\<close>

text \<open>
  Claim C8. When the promise resolves, its value is the data URL that \<open>readAsDataURL\<close>
  produced from the blob that \<open>toBlob\<close> produced, with type \<open>image/png\<close> and quality 1,
  from the canvas that \<open>applyForensicMetadata\<close> returned for the compositor's canvas; and
  every call of \<open>toBlob\<close> asks for \<open>image/png\<close> at quality 1.
\<close>

theorem successful_output_is_png_data_url:
  "(\<forall>r. promise (processScreenshotWithDefaultBackground w imagePath options) = Resolved r \<longrightarrow>
      (\<exists>args canvas out b url.
         CallCreateHighQualityCanvas args
           \<in> set (trace (processScreenshotWithDefaultBackground w imagePath options)) \<and>
         createHighQualityCanvas w args = Inr canvas \<and>
         applyForensicMetadata w options (fst (loadSettings w)) canvas = Inr out \<and>
         CallToBlob out (js ''image/png'') 1
           \<in> set (trace (processScreenshotWithDefaultBackground w imagePath options)) \<and>
         toBlob w out (js ''image/png'') 1 = Inr (Some b) \<and>
         CallReadAsDataURL b
           \<in> set (trace (processScreenshotWithDefaultBackground w imagePath options)) \<and>
         readAsDataURL w b = Some url \<and>
         r = DataURL url)) \<and>
   (\<forall>c m q. CallToBlob c m q
               \<in> set (trace (processScreenshotWithDefaultBackground w imagePath options)) \<longrightarrow>
            m = js ''image/png'' \<and> q = 1)"
proof (intro conjI allI impI)
  fix r
  assume "promise (processScreenshotWithDefaultBackground w imagePath options) = Resolved r"
  then have res: "pipeline_outcome w imagePath
      (applyForensicMetadata w options (fst (loadSettings w))) (fst (loadSettings w)) = Resolved r"
    by (simp add: process_promise)
  let ?f = "applyForensicMetadata w options (fst (loadSettings w))"
  let ?a = "the_args w imagePath (fst (loadSettings w))"
  let ?ev = "pipeline_events w imagePath ?f (fst (loadSettings w))"
  from pipeline_outcome_Resolved [OF res]
  have call: "CallCreateHighQualityCanvas ?a \<in> set ?ev"
    and out: "compose_outcome w ?f ?a = Resolved r"
    and sub: "set (compose_events w ?f ?a) \<subseteq> set ?ev"
    by blast+
  from out obtain canvas out b url where
    c: "createHighQualityCanvas w ?a = Inr canvas" and f: "?f canvas = Inr out" and
    t: "toBlob w out (js ''image/png'') 1 = Inr (Some b)" and
    rd: "readAsDataURL w b = Some url" and r: "r = DataURL url"
    by (auto simp: compose_outcome_Resolved)
  have "CallToBlob out (js ''image/png'') 1 \<in> set (compose_events w ?f ?a)"
    using c f by (simp add: compose_events_toBlob)
  moreover have "CallReadAsDataURL b \<in> set (compose_events w ?f ?a)"
    using c f t by (simp add: compose_events_read)
  ultimately have "CallToBlob out (js ''image/png'') 1 \<in> set ?ev" "CallReadAsDataURL b \<in> set ?ev"
    using sub by blast+
  with call c f t rd r
  show "\<exists>args canvas out b url.
         CallCreateHighQualityCanvas args
           \<in> set (trace (processScreenshotWithDefaultBackground w imagePath options)) \<and>
         createHighQualityCanvas w args = Inr canvas \<and>
         applyForensicMetadata w options (fst (loadSettings w)) canvas = Inr out \<and>
         CallToBlob out (js ''image/png'') 1
           \<in> set (trace (processScreenshotWithDefaultBackground w imagePath options)) \<and>
         toBlob w out (js ''image/png'') 1 = Inr (Some b) \<and>
         CallReadAsDataURL b
           \<in> set (trace (processScreenshotWithDefaultBackground w imagePath options)) \<and>
         readAsDataURL w b = Some url \<and>
         r = DataURL url"
    unfolding process_trace by (intro exI [of _ ?a] exI [of _ canvas] exI [of _ out] exI [of _ b] exI [of _ url]) simp
next
  fix c m q
  assume "CallToBlob c m q \<in> set (trace (processScreenshotWithDefaultBackground w imagePath options))"
  then have "CallToBlob c m q \<in> set (pipeline_events w imagePath
      (applyForensicMetadata w options (fst (loadSettings w))) (fst (loadSettings w)))"
    by (auto simp: process_trace dest: logged_only_console)
  then have "m = js ''image/png'' \<and> q = 1" by (simp add: pipeline_events_toBlob)
  then show "m = js ''image/png''" "q = 1" by simp_all
qed

text \<open>
  A concrete instance of C8.
\<close>

theorem successful_output_witness:
  "promise (processScreenshotWithDefaultBackground
              (example_world (Inr (example_store Custom False))) example_path example_options)
     = Resolved (DataURL (js ''data:image/png;base64,'')) \<and>
   CallToBlob (Canvas 1000 800 []) (js ''image/png'') 1
     \<in> set (trace (processScreenshotWithDefaultBackground
                     (example_world (Inr (example_store Custom False)))
                     example_path example_options)) \<and>
   CallReadAsDataURL (Blob (js ''image/png'') [])
     \<in> set (trace (processScreenshotWithDefaultBackground
                     (example_world (Inr (example_store Custom False)))
                     example_path example_options))"
  using successful_output_is_png_data_url
    [of "example_world (Inr (example_store Custom False))" example_path example_options]
  by (simp add: eval_defs)

subsection \<open>C9\<close>

text \<open>
  Claim C9. When the resolved background type is not \<open>transparent\<close>, every call of the
  compositor has padding 100, border radius 18, noise amount 20, blur amount 0 and the shadow
  (33, 18, 23, 39), whatever the settings store holds, and the compositor is called whenever
  the source image and, for \<open>image\<close> and \<open>gradient\<close>, the background image decode. This
  holds for both orchestrators.
\<close>

theorem opaque_background_fixed_constants:
  "(backgroundType (fst (loadSettings w)) \<noteq> Transparent \<longrightarrow>
      (\<forall>args. CallCreateHighQualityCanvas args
                 \<in> set (trace (processScreenshotWithDefaultBackground w imagePath options)) \<longrightarrow>
              padding args = 100 \<and> borderRadius args = 18 \<and> noiseAmount args = 20 \<and>
              blurAmount args = 0 \<and>
              shadow args = \<lparr>blur = 33, offsetX = 18, offsetY = 23, opacity = 39\<rparr>) \<and>
      (decodes w \<lparr>src = convertFileSrc w imagePath, crossOrigin = js ''anonymous''\<rparr> \<and>
       (backgroundType (fst (loadSettings w)) = Image \<or>
        backgroundType (fst (loadSettings w)) = Gradient \<longrightarrow>
          decodes w \<lparr>src = defaultBgImage (fst (loadSettings w)),
                     crossOrigin = js ''anonymous''\<rparr>) \<longrightarrow>
         (\<exists>args. CallCreateHighQualityCanvas args
                 \<in> set (trace (processScreenshotWithDefaultBackground w imagePath options))))) \<and>
   (backgroundType (fst (loadSettings_legacy w)) \<noteq> Transparent \<longrightarrow>
      (\<forall>args. CallCreateHighQualityCanvas args
                 \<in> set (trace (processScreenshotWithDefaultBackground_legacy w imagePath)) \<longrightarrow>
              padding args = 100 \<and> borderRadius args = 18 \<and> noiseAmount args = 20 \<and>
              blurAmount args = 0 \<and>
              shadow args = \<lparr>blur = 33, offsetX = 18, offsetY = 23, opacity = 39\<rparr>) \<and>
      (decodes w \<lparr>src = convertFileSrc w imagePath, crossOrigin = js ''anonymous''\<rparr> \<and>
       (backgroundType (fst (loadSettings_legacy w)) = Image \<or>
        backgroundType (fst (loadSettings_legacy w)) = Gradient \<longrightarrow>
          decodes w \<lparr>src = defaultBgImage (fst (loadSettings_legacy w)),
                     crossOrigin = js ''anonymous''\<rparr>) \<longrightarrow>
         (\<exists>args. CallCreateHighQualityCanvas args
                 \<in> set (trace (processScreenshotWithDefaultBackground_legacy w imagePath)))))"
proof -
  have new: "padding a = 100 \<and> borderRadius a = 18 \<and> noiseAmount a = 20 \<and> blurAmount a = 0 \<and>
      shadow a = \<lparr>blur = 33, offsetX = 18, offsetY = 23, opacity = 39\<rparr>"
    if "backgroundType v \<noteq> Transparent"
      and "CallCreateHighQualityCanvas a \<in> set (pipeline_events w imagePath footer v)"
    for a footer and v :: "'a base_settings_scheme"
    using that compositor_constants [of v a "source_el w imagePath" "background_el v"]
    by (simp add: pipeline_events_compose split: if_splits)
  show ?thesis
    using new [of "fst (loadSettings w)"] new [of "fst (loadSettings_legacy w)"]
    by (auto simp: process_trace process_legacy_trace logged_no_compose logged_legacy_no_compose
        pipeline_events_compose source_el_def background_el_def)
qed

text \<open>
  A concrete instance of C9.
\<close>

theorem opaque_background_witness:
  "backgroundType (fst (loadSettings (example_world (Inr (example_store Custom False)))))
     \<noteq> Transparent \<and>
   CallCreateHighQualityCanvas
     \<lparr>image_arg = \<lparr>src = js ''asset:///tmp/shot.png'', crossOrigin = js ''anonymous''\<rparr>,
      backgroundType_arg = Custom, customColor_arg = js ''#112233'',
      selectedImage = None, bgImage = None, blurAmount = 0, noiseAmount = 20,
      borderRadius = 18, padding = 100, gradientImage = None,
      shadow = \<lparr>blur = 33, offsetX = 18, offsetY = 23, opacity = 39\<rparr>\<rparr>
     \<in> set (trace (processScreenshotWithDefaultBackground
                     (example_world (Inr (example_store Custom False)))
                     example_path example_options)) \<and>
   backgroundType (fst (loadSettings_legacy (example_world (Inr (example_store Gradient False)))))
     \<noteq> Transparent \<and>
   CallCreateHighQualityCanvas
     \<lparr>image_arg = \<lparr>src = js ''asset:///tmp/shot.png'', crossOrigin = js ''anonymous''\<rparr>,
      backgroundType_arg = Gradient, customColor_arg = js ''#112233'',
      selectedImage = None, bgImage = None, blurAmount = 0, noiseAmount = 20,
      borderRadius = 18, padding = 100,
      gradientImage = Some \<lparr>src = js ''/assets/asset-7'', crossOrigin = js ''anonymous''\<rparr>,
      shadow = \<lparr>blur = 33, offsetX = 18, offsetY = 23, opacity = 39\<rparr>\<rparr>
     \<in> set (trace (processScreenshotWithDefaultBackground_legacy
                     (example_world (Inr (example_store Gradient False))) example_path))"
  using opaque_background_fixed_constants
    [of "example_world (Inr (example_store Custom False))" example_path example_options]
  by (simp add: eval_defs)

subsection \<open>C10\<close>

text \<open>
  Claim C10, amended. In one environment, when the newer orchestrator resolves forensic
  metadata to disabled and none of the reads of \<open>forensicMetadataEnabled\<close>,
  \<open>forensicTeam\<close> and \<open>forensicUser\<close> throws, the promises of the two orchestrators
  settle to the same state.
\<close>

theorem forensics_disabled_equivalent_to_legacy:
  assumes disabled: "\<not> forensicEnabled (fst (loadSettings w))"
    and no_throw: "\<forall>store. Store_load w (js ''settings.json'') = Inr store \<longrightarrow>
      (\<forall>e. get_forensicMetadataEnabled store \<noteq> Inl e) \<and>
      (\<forall>e. get_forensicTeam store \<noteq> Inl e) \<and>
      (\<forall>e. get_forensicUser store \<noteq> Inl e)"
  shows "promise (processScreenshotWithDefaultBackground w imagePath options)
      = promise (processScreenshotWithDefaultBackground_legacy w imagePath)"
proof -
  have agree: "backgroundType (fst (loadSettings w)) = backgroundType (fst (loadSettings_legacy w)) \<and>
    customColor (fst (loadSettings w)) = customColor (fst (loadSettings_legacy w)) \<and>
    defaultBgImage (fst (loadSettings w)) = defaultBgImage (fst (loadSettings_legacy w))"
    using reads_without_forensic_throw [OF no_throw]
  proof (elim disjE exE conjE)
    fix s
    assume "read_settings w = Inr s"
    then show ?thesis by (rule loaded_settings_agree)
  next
    fix err err'
    assume "read_settings w = Inl err" "read_settings_legacy w = Inl err'"
    then show ?thesis by (rule failed_settings_agree)
  qed
  from disabled have "applyForensicMetadata w options (fst (loadSettings w)) = Inr"
    by (simp add: applyForensicMetadata_disabled)
  then have "promise (processScreenshotWithDefaultBackground w imagePath options)
      = pipeline_outcome w imagePath Inr (fst (loadSettings w))"
    by (simp add: process_promise)
  also have "\<dots> = pipeline_outcome w imagePath Inr (fst (loadSettings_legacy w))"
    using agree by (intro pipeline_outcome_cong) simp_all
  also have "\<dots> = promise (processScreenshotWithDefaultBackground_legacy w imagePath)"
    by (simp add: process_legacy_promise)
  finally show ?thesis .
qed

text \<open>
  A concrete instance of C10.
\<close>

theorem forensics_disabled_witness:
  "\<not> forensicEnabled (fst (loadSettings (example_world (Inr (example_store Gradient False))))) \<and>
   get_forensicMetadataEnabled (example_store Gradient False) = Inr (Some False) \<and>
   get_forensicTeam (example_store Gradient False) = Inr (Some (js ''security'')) \<and>
   get_forensicUser (example_store Gradient False) = Inr None \<and>
   promise (processScreenshotWithDefaultBackground
              (example_world (Inr (example_store Gradient False))) example_path example_options)
     = Resolved (DataURL (js ''data:image/png;base64,'')) \<and>
   promise (processScreenshotWithDefaultBackground_legacy
              (example_world (Inr (example_store Gradient False))) example_path)
     = Resolved (DataURL (js ''data:image/png;base64,''))"
proof -
  let ?w = "example_world (Inr (example_store Gradient False))"
  have h1: "\<not> forensicEnabled (fst (loadSettings ?w))"
    by (simp add: settings_defs example_defs js_def)
  have h2: "\<forall>store. Store_load ?w (js ''settings.json'') = Inr store \<longrightarrow>
      (\<forall>e. get_forensicMetadataEnabled store \<noteq> Inl e) \<and>
      (\<forall>e. get_forensicTeam store \<noteq> Inl e) \<and>
      (\<forall>e. get_forensicUser store \<noteq> Inl e)"
    by (auto simp: example_defs)
  have new: "promise (processScreenshotWithDefaultBackground ?w example_path example_options)
     = Resolved (DataURL (js ''data:image/png;base64,''))"
    by (simp add: eval_defs)
  from forensics_disabled_equivalent_to_legacy [OF h1 h2, of example_path example_options] new
  have "promise (processScreenshotWithDefaultBackground_legacy ?w example_path)
     = Resolved (DataURL (js ''data:image/png;base64,''))"
    by simp
  with h1 new show ?thesis by (simp add: example_store_def)
qed

text \<open>
  Claim C10 as stated fails when a forensic read throws: with the stored type
  \<open>transparent\<close>, forensic metadata off and \<open>store.get("forensicTeam")\<close> throwing, the
  newer orchestrator falls back to the type \<open>image\<close> with padding 100 while the older one
  keeps \<open>transparent\<close>, and the two data URLs differ.
\<close>

theorem forensics_disabled_counterexample:
  "\<not> forensicEnabled (fst (loadSettings diverging_world)) \<and>
   promise (processScreenshotWithDefaultBackground diverging_world example_path example_options)
     = Resolved (DataURL (js ''data:image/png;base64,AQ=='')) \<and>
   promise (processScreenshotWithDefaultBackground_legacy diverging_world example_path)
     = Resolved (DataURL (js ''data:image/png;base64,AA=='')) \<and>
   promise (processScreenshotWithDefaultBackground diverging_world example_path example_options)
     \<noteq> promise (processScreenshotWithDefaultBackground_legacy diverging_world example_path)"
  by (simp add: eval_defs diverging_world_def)

end
